theory Spec2Isabelle
  imports Main "HOL-Library.Log_Nat" "HOL-Library.Char_ord" "HOL-Library.List_Lexorder"
begin

section \<open>Strings and regular expressions\<close>

text \<open>
  A Python \<open>str\<close> is modelled as a \<open>string\<close> whose characters are the code points
  0..255 (Latin-1); \<open>len\<close> is \<open>length\<close>. On this range the class \<open>\d\<close> of the
  \<open>re\<close> module is the ASCII digits, \<open>\s\<close> is the set below, and \<open>re.IGNORECASE\<close>
  compares letters by their lower case; no character range occurs in a pattern that
  is matched with \<open>re.IGNORECASE\<close>.
\<close>

definition newline :: char where
  "newline = CHR 0x0A"

definition is_digit :: "char \<Rightarrow> bool" where
  "is_digit c = (48 \<le> (of_char c :: nat) \<and> (of_char c :: nat) \<le> 57)"

definition is_space :: "char \<Rightarrow> bool" where
  "is_space c = (let n = (of_char c :: nat) in
     (9 \<le> n \<and> n \<le> 13) \<or> (28 \<le> n \<and> n \<le> 32) \<or> n = 133 \<or> n = 160)"

definition lower_char :: "char \<Rightarrow> char" where
  "lower_char c = (let n = (of_char c :: nat) in
     if (65 \<le> n \<and> n \<le> 90) \<or> (192 \<le> n \<and> n \<le> 222 \<and> n \<noteq> 215) then char_of (n + 32) else c)"

definition lower :: "string \<Rightarrow> string" where
  "lower s = map lower_char s"

text \<open>One character position of a pattern.\<close>

datatype atom = Ch char | Digit | Space | NonSpace | Range char char

text \<open>
  The patterns of the source, without their anchors: \<open>Seq\<close> is juxtaposition,
  \<open>Alt\<close> is \<open>|\<close>, \<open>Star\<close> is \<open>*\<close>.
\<close>

datatype rx = Fail | Empty | Atom atom | Seq rx rx | Alt rx rx | Star rx

fun atom_match :: "bool \<Rightarrow> atom \<Rightarrow> char \<Rightarrow> bool" where
  "atom_match ic (Ch a) c = (if ic then lower_char a = lower_char c else a = c)"
| "atom_match ic Digit c = is_digit c"
| "atom_match ic Space c = is_space c"
| "atom_match ic NonSpace c = (\<not> is_space c)"
| "atom_match ic (Range a b) c = ((of_char a :: nat) \<le> of_char c \<and> (of_char c :: nat) \<le> of_char b)"

fun nullable :: "rx \<Rightarrow> bool" where
  "nullable Fail = False"
| "nullable Empty = True"
| "nullable (Atom a) = False"
| "nullable (Seq r s) = (nullable r \<and> nullable s)"
| "nullable (Alt r s) = (nullable r \<or> nullable s)"
| "nullable (Star r) = True"

fun seq :: "rx \<Rightarrow> rx \<Rightarrow> rx" where
  "seq Fail s = Fail"
| "seq r Fail = Fail"
| "seq Empty s = s"
| "seq r s = Seq r s"

fun alt :: "rx \<Rightarrow> rx \<Rightarrow> rx" where
  "alt Fail s = s"
| "alt r Fail = r"
| "alt r s = (if r = s then r else Alt r s)"

text \<open>The pattern that matches what is left of a match of \<open>r\<close> after the character \<open>c\<close>.\<close>

fun deriv :: "bool \<Rightarrow> char \<Rightarrow> rx \<Rightarrow> rx" where
  "deriv ic c Fail = Fail"
| "deriv ic c Empty = Fail"
| "deriv ic c (Atom a) = (if atom_match ic a c then Empty else Fail)"
| "deriv ic c (Seq r s) =
     (if nullable r then alt (seq (deriv ic c r) s) (deriv ic c s)
      else seq (deriv ic c r) s)"
| "deriv ic c (Alt r s) = alt (deriv ic c r) (deriv ic c s)"
| "deriv ic c (Star r) = seq (deriv ic c r) (Star r)"

fun full_match :: "bool \<Rightarrow> rx \<Rightarrow> string \<Rightarrow> bool" where
  "full_match ic r [] = nullable r"
| "full_match ic r (c # cs) = full_match ic (deriv ic c r) cs"

text \<open>
  \<open>re.match('^r$', s)\<close>: without \<open>re.MULTILINE\<close> the anchor \<open>$\<close> matches at the end
  of the string and also just before a newline that ends the string.
\<close>

definition re_match :: "bool \<Rightarrow> rx \<Rightarrow> string \<Rightarrow> bool" where
  "re_match ic r s =
     (full_match ic r s \<or> (s \<noteq> [] \<and> last s = newline \<and> full_match ic r (butlast s)))"

fun lit :: "string \<Rightarrow> rx" where
  "lit [] = Empty"
| "lit [c] = Atom (Ch c)"
| "lit (c # cs) = Seq (Atom (Ch c)) (lit cs)"

definition opt :: "rx \<Rightarrow> rx" where
  "opt r = Alt r Empty"

definition plus :: "rx \<Rightarrow> rx" where
  "plus r = Seq r (Star r)"

fun rep :: "nat \<Rightarrow> rx \<Rightarrow> rx" where
  "rep 0 r = Empty"
| "rep (Suc 0) r = r"
| "rep (Suc n) r = Seq r (rep n r)"

fun seqs :: "rx list \<Rightarrow> rx" where
  "seqs [] = Empty"
| "seqs [r] = r"
| "seqs (r # rs) = Seq r (seqs rs)"

fun alts :: "rx list \<Rightarrow> rx" where
  "alts [] = Fail"
| "alts [r] = r"
| "alts (r # rs) = Alt r (alts rs)"

definition digits :: "nat \<Rightarrow> rx" where
  "digits n = rep n (Atom Digit)"

definition one_of :: "string list \<Rightarrow> rx" where
  "one_of ws = alts (map lit ws)"

section \<open>Format validators\<close>

definition iso8601_patterns :: "rx list" where
  "iso8601_patterns =
    [seqs [digits 4, lit ''-'', digits 2, lit ''-'', digits 2],
     seqs [digits 4, lit ''-'', digits 2, lit ''-'', digits 2, lit ''T'',
           digits 2, lit '':'', digits 2, lit '':'', digits 2, opt (lit ''Z'')],
     seqs [digits 4, lit ''-'', digits 2, lit ''-'', digits 2, lit ''T'',
           digits 2, lit '':'', digits 2, lit '':'', digits 2, lit ''.'', digits 3, opt (lit ''Z'')],
     seqs [digits 4, lit ''/'', digits 4],
     seqs [digits 4, lit ''-'', digits 2, lit ''-'', digits 2, lit ''/'',
           digits 4, lit ''-'', digits 2, lit ''-'', digits 2]]"

definition validate_iso8601_date :: "string \<Rightarrow> bool" where
  "validate_iso8601_date date_str = list_ex (\<lambda>pattern. re_match False pattern date_str) iso8601_patterns"

definition doi_tail :: rx where
  "doi_tail = seqs [lit ''10.'', digits 4, Star (Atom Digit), lit ''/'', plus (Atom NonSpace)]"

definition validate_doi :: "string \<Rightarrow> bool" where
  "validate_doi doi =
     (re_match True (seqs [opt (seqs [lit ''http'', opt (lit ''s''), lit ''://'']),
                           opt (lit ''dx.''), lit ''doi.org/'', doi_tail]) doi
      \<or> re_match True doi_tail doi)"

definition validate_isbn :: "string \<Rightarrow> bool" where
  "validate_isbn isbn =
     (let clean_isbn = filter (\<lambda>c. \<not> (c = CHR ''-'' \<or> is_space c)) isbn
      in re_match False
           (seqs [opt (seqs [lit ''97'', Alt (Atom (Ch CHR ''8'')) (Atom (Ch CHR ''9''))]),
                  digits 9, Alt (Atom Digit) (Atom (Ch CHR ''X''))]) clean_isbn)"

definition validate_issn :: "string \<Rightarrow> bool" where
  "validate_issn issn =
     re_match True (seqs [lit ''ISSN'', opt (Atom Space), digits 4, lit ''-'', digits 3,
                          Alt (Atom Digit) (Atom (Ch CHR ''X''))]) issn"

definition validate_orcid :: "string \<Rightarrow> bool" where
  "validate_orcid orcid =
     re_match False (seqs [lit ''0000-000'', Atom (Range CHR ''1'' CHR ''3''), lit ''-'', digits 4,
                           lit ''-'', digits 3, Alt (Atom Digit) (Atom (Ch CHR ''X''))]) orcid"

definition coord_number :: rx where
  "coord_number = seqs [opt (lit ''-''), plus (Atom Digit), opt (lit ''.''), Star (Atom Digit)]"

definition coord_bounds :: rx where
  "coord_bounds = seqs [coord_number, opt (lit ''-''), opt (lit ''-''),
                        plus (Atom Digit), opt (lit ''.''), Star (Atom Digit)]"

definition validate_coordinates :: "string \<Rightarrow> bool" where
  "validate_coordinates coord_str =
     re_match False (seqs [lit ''lat:'', Star (Atom Space), coord_bounds, lit '','',
                           Star (Atom Space), lit ''lon:'', Star (Atom Space), coord_bounds]) coord_str"

section \<open>Parsed documents\<close>

text \<open>
  What \<open>yaml.safe_load\<close> returns, a generic tree: \<open>None\<close>, booleans, integers, strings,
  lists and mappings with string keys. A mapping is an association list that stands for
  the dictionary \<open>map_of\<close> reads from it. The same type holds validated values: a model
  instance is the dictionary of its fields, an enumeration member is its string.
\<close>

datatype pyobj = PNone | PBool bool | PInt int | PStr string | PList "pyobj list"
  | PDict "(string \<times> pyobj) list"

type_synonym pydict = "(string \<times> pyobj) list"

fun show_nat :: "nat \<Rightarrow> string" where
  "show_nat n = (if n < 10 then [char_of (48 + n)] else show_nat (n div 10) @ [char_of (48 + n mod 10)])"

declare show_nat.simps [simp del]

definition show_int :: "int \<Rightarrow> string" where
  "show_int i = (if i < 0 then ''-'' @ show_nat (nat (- i)) else show_nat (nat i))"

text \<open>\<open>bool(x)\<close> of a value that \<open>dict.get\<close> returned.\<close>

fun truthy :: "pyobj option \<Rightarrow> bool" where
  "truthy None = False"
| "truthy (Some PNone) = False"
| "truthy (Some (PBool b)) = b"
| "truthy (Some (PInt i)) = (i \<noteq> 0)"
| "truthy (Some (PStr s)) = (s \<noteq> [])"
| "truthy (Some (PList xs)) = (xs \<noteq> [])"
| "truthy (Some (PDict kvs)) = (kvs \<noteq> [])"

section \<open>Declarative models\<close>

text \<open>
  The classes of \<open>validator.py\<close> are pydantic (version 1) models: \<open>Field(regex=...)\<close>,
  \<open>@validator\<close> and a \<open>@root_validator\<close> without \<open>skip_on_failure\<close> exist in that
  version only. A class is the list of its fields in declaration order. The engine below
  is the library's \<open>validate_model\<close>: the fields are validated in declaration order,
  a field's own validator receives in \<open>values\<close> the fields validated before it, keys that
  are no field are errors because of \<open>extra = "forbid"\<close>, the root validator runs last,
  and the model is built when no error was collected.

  Outside the model: YAML floats, timestamps, binary scalars and sets, mappings with keys
  that are not strings, and the library's conversion of a sequence of key/value pairs given
  where a mapping is expected.
\<close>

text \<open>An entry of a \<open>ValidationError\<close>: a location and a message, or the errors of a nested model.\<close>

datatype verr = VErr "string list" string | VModel "string list" "verr list"

fun at_loc :: "string \<Rightarrow> verr \<Rightarrow> verr" where
  "at_loc l (VErr loc m) = VErr (l # loc) m"
| "at_loc l (VModel loc es) = VModel (l # loc) es"

text \<open>
  A \<open>@validator\<close> method takes the value and \<open>values\<close> and returns the value to store or
  raises \<open>ValueError\<close> with a message; a \<open>@root_validator\<close> takes and returns \<open>values\<close>.
\<close>

type_synonym field_validator = "pyobj \<Rightarrow> pydict \<Rightarrow> string + pyobj"

type_synonym root_validator = "pydict \<Rightarrow> string + pydict"

text \<open>
  \<open>TStr min_length max_length regex\<close> is \<open>str\<close> with the constraints of \<open>Field\<close>;
  \<open>TEnum\<close> lists the values of a \<open>str\<close> enumeration; \<open>TUrl\<close> carries the library's check of
  \<open>AnyUrl\<close> or \<open>HttpUrl\<close>, which returns the accepted URL; \<open>Fld name required type validator\<close>
  is a field, required (\<open>Field(...)\<close>) or \<open>Optional\<close> with default \<open>None\<close>.
\<close>

datatype ftype = TStr "nat option" "nat option" "rx option"
  | TEnum "string list"
  | TBool
  | TUrl "string \<Rightarrow> string option"
  | TList ftype
  | TModel "fld list" "root_validator option"
and fld = Fld string bool ftype "field_validator option"

fun fld_name :: "fld \<Rightarrow> string" where
  "fld_name (Fld name req ty fv) = name"

text \<open>The library's \<open>str_validator\<close>: a string, or \<open>str(v)\<close> of a number (\<open>bool\<close> is an \<open>int\<close>).\<close>

fun str_validator :: "pyobj \<Rightarrow> string option" where
  "str_validator (PStr s) = Some s"
| "str_validator (PInt i) = Some (show_int i)"
| "str_validator (PBool b) = Some (if b then ''True'' else ''False'')"
| "str_validator _ = None"

definition constr :: "nat option \<Rightarrow> nat option \<Rightarrow> rx option \<Rightarrow> string \<Rightarrow> verr list + pyobj" where
  "constr min_length max_length regex s =
     (if (case min_length of None \<Rightarrow> False | Some n \<Rightarrow> length s < n)
        then Inl [VErr [] ''ensure this value has at least min_length characters'']
      else if (case max_length of None \<Rightarrow> False | Some n \<Rightarrow> n < length s)
        then Inl [VErr [] ''ensure this value has at most max_length characters'']
      else if (case regex of None \<Rightarrow> False | Some r \<Rightarrow> \<not> re_match False r s)
        then Inl [VErr [] ''string does not match regex'']
      else Inr (PStr s))"

fun bool_validator :: "pyobj \<Rightarrow> bool option" where
  "bool_validator (PBool b) = Some b"
| "bool_validator (PInt i) = (if i = 1 then Some True else if i = 0 then Some False else None)"
| "bool_validator (PStr s) =
     (if lower s \<in> set [''1'', ''on'', ''t'', ''true'', ''y'', ''yes''] then Some True
      else if lower s \<in> set [''0'', ''off'', ''f'', ''false'', ''n'', ''no''] then Some False
      else None)"
| "bool_validator _ = None"

fun to_dict :: "pyobj \<Rightarrow> pydict option" where
  "to_dict (PDict kvs) = Some kvs"
| "to_dict _ = None"

definition extra_errors :: "fld list \<Rightarrow> pydict \<Rightarrow> verr list" where
  "extra_errors fields input_data =
     map (\<lambda>f. VErr [f] ''extra fields not permitted'')
       (sort (remdups (filter (\<lambda>k. k \<notin> set (map fld_name fields)) (map fst input_data))))"

definition run_root :: "root_validator option \<Rightarrow> pydict \<times> verr list \<Rightarrow> pydict \<times> verr list" where
  "run_root rootv ve =
     (case rootv of None \<Rightarrow> ve
      | Some validator \<Rightarrow>
          (case validator (fst ve) of
             Inl msg \<Rightarrow> (fst ve, snd ve @ [VErr [''__root__''] msg])
           | Inr values \<Rightarrow> (values, snd ve)))"

definition run_validator :: "field_validator option \<Rightarrow> pyobj \<Rightarrow> pydict \<Rightarrow> verr list + pyobj" where
  "run_validator fv v values =
     (case fv of None \<Rightarrow> Inr v
      | Some validator \<Rightarrow>
          (case validator v values of Inl msg \<Rightarrow> Inl [VErr [] msg] | Inr v' \<Rightarrow> Inr v'))"

fun validate_type :: "ftype \<Rightarrow> pyobj \<Rightarrow> verr list + pyobj"
  and validate_model :: "fld list \<Rightarrow> root_validator option \<Rightarrow> pydict \<Rightarrow> verr list + pydict"
  and validate_items :: "ftype \<Rightarrow> nat \<Rightarrow> pyobj list \<Rightarrow> pyobj list \<times> verr list"
  and validate_fields :: "fld list \<Rightarrow> pydict \<Rightarrow> pydict \<times> verr list \<Rightarrow> pydict \<times> verr list"
where
  "validate_type (TStr min_length max_length regex) v =
     (case str_validator v of
        None \<Rightarrow> Inl [VErr [] ''str type expected'']
      | Some s \<Rightarrow> constr min_length max_length regex s)"
| "validate_type (TEnum members) v =
     (case v of
        PStr s \<Rightarrow> if s \<in> set members then Inr (PStr s)
                  else Inl [VErr [] ''value is not a valid enumeration member'']
      | _ \<Rightarrow> Inl [VErr [] ''value is not a valid enumeration member''])"
| "validate_type TBool v =
     (case bool_validator v of
        None \<Rightarrow> Inl [VErr [] ''value could not be parsed to a boolean'']
      | Some b \<Rightarrow> Inr (PBool b))"
| "validate_type (TUrl check) v =
     (case str_validator v of
        None \<Rightarrow> Inl [VErr [] ''str type expected'']
      | Some s \<Rightarrow> (case check s of None \<Rightarrow> Inl [VErr [] ''invalid or missing URL'']
                   | Some url \<Rightarrow> Inr (PStr url)))"
| "validate_type (TList item) v =
     (case v of
        PList xs \<Rightarrow> (case validate_items item 0 xs of
                       (result, errors) \<Rightarrow> if errors = [] then Inr (PList result) else Inl errors)
      | _ \<Rightarrow> Inl [VErr [] ''value is not a valid list''])"
| "validate_type (TModel fields rootv) v =
     (case to_dict v of
        None \<Rightarrow> Inl [VErr [] ''value is not a valid dict'']
      | Some input_data \<Rightarrow>
          (case validate_model fields rootv input_data of
             Inl errors \<Rightarrow> Inl [VModel [] errors]
           | Inr values \<Rightarrow> Inr (PDict values)))"
| "validate_model fields rootv input_data =
     (case run_root rootv
             (case validate_fields fields input_data ([], []) of
                (values, errors) \<Rightarrow> (values, errors @ extra_errors fields input_data)) of
        (values, errors) \<Rightarrow> if errors = [] then Inr values else Inl errors)"
| "validate_items item i [] = ([], [])"
| "validate_items item i (x # xs) =
     (case (if x = PNone then Inl [VErr [] ''none is not an allowed value''] else validate_type item x) of
        Inl es \<Rightarrow> (case validate_items item (Suc i) xs of
                     (result, errors) \<Rightarrow> (result, map (at_loc (show_nat i)) es @ errors))
      | Inr v \<Rightarrow> (case validate_items item (Suc i) xs of
                     (result, errors) \<Rightarrow> (v # result, errors)))"
| "validate_fields [] input_data ve = ve"
| "validate_fields (Fld name required ty fv # fields) input_data ve =
     (case map_of input_data name of
        None \<Rightarrow>
          if required then validate_fields fields input_data (fst ve, snd ve @ [VErr [name] ''field required''])
          else validate_fields fields input_data (fst ve @ [(name, PNone)], snd ve)
      | Some value \<Rightarrow>
          (case (if value = PNone
                 then (if required then Inl [VErr [] ''none is not an allowed value'']
                       else run_validator fv PNone (fst ve))
                 else (case validate_type ty value of
                         Inl es \<Rightarrow> Inl es
                       | Inr v \<Rightarrow> run_validator fv v (fst ve))) of
             Inl es \<Rightarrow> validate_fields fields input_data (fst ve, snd ve @ map (at_loc name) es)
           | Inr v \<Rightarrow> validate_fields fields input_data (fst ve @ [(name, v)], snd ve)))"

declare validate_type.simps [simp del] validate_model.simps [simp del]

section \<open>Vocabularies\<close>

definition ISO639_1 :: "string list" where
  "ISO639_1 = [''en'', ''es'', ''fr'', ''de'', ''it'', ''pt'', ''ru'', ''ja'', ''zh'', ''ar'',
               ''hi'', ''ko'', ''nl'', ''sv'', ''no'', ''da'', ''fi'', ''pl'', ''cs'', ''hu'']"

definition ISO3166_1 :: "string list" where
  "ISO3166_1 = [''US'', ''USA'', ''GB'', ''UK'', ''CA'', ''AU'', ''DE'', ''FR'', ''ES'', ''IT'',
                ''JP'', ''CN'', ''IN'', ''BR'', ''MX'', ''RU'', ''EU'']"

definition DCMITypeVocabulary :: "string list" where
  "DCMITypeVocabulary = [''Collection'', ''Dataset'', ''Event'', ''Image'', ''InteractiveResource'',
                         ''MovingImage'', ''PhysicalObject'', ''Service'', ''Software'', ''Sound'',
                         ''StillImage'', ''Text'']"

definition SubjectScheme :: "string list" where
  "SubjectScheme = [''LCSH'', ''MeSH'', ''DDC'', ''UDC'', ''LCC'', ''AGROVOC'', ''AAT'', ''keyword'', ''local'']"

definition DateScheme :: "string list" where
  "DateScheme = [''W3CDTF'', ''DCMI Period'', ''TGN'', ''local'']"

definition IdentifierScheme :: "string list" where
  "IdentifierScheme = [''URI'', ''URN'', ''DOI'', ''ISBN'', ''ISSN'', ''Handle'', ''local'']"

section \<open>Element models\<close>

text \<open>\<open>bounded m n\<close> is \<open>Field(min_length=m, max_length=n)\<close>, \<open>at_most n\<close> is
  \<open>Field(None, max_length=n)\<close>, \<open>vocab ws\<close> is \<open>Field(None, regex='^(w1|w2|...)$')\<close>.\<close>

definition bounded :: "nat \<Rightarrow> nat \<Rightarrow> ftype" where
  "bounded m n = TStr (Some m) (Some n) None"

definition at_most :: "nat \<Rightarrow> ftype" where
  "at_most n = TStr None (Some n) None"

definition vocab :: "string list \<Rightarrow> ftype" where
  "vocab ws = TStr None None (Some (one_of ws))"

definition plain_str :: ftype where
  "plain_str = TStr None None None"

text \<open>The string a validator of a \<open>str\<close> field receives.\<close>

fun str_value :: "pyobj \<Rightarrow> string" where
  "str_value (PStr s) = s"
| "str_value _ = []"

definition TitleElement :: "fld list" where
  "TitleElement =
    [Fld ''value'' True (bounded 1 1000) None,
     Fld ''type'' False (vocab [''main'', ''alternative'', ''translated'', ''subtitle'', ''uniform'',
                                ''abbreviated'', ''expanded'']) None,
     Fld ''language'' False (TEnum ISO639_1) None]"

definition validate_orcid_format :: field_validator where
  "validate_orcid_format v values =
     (if v \<noteq> PNone \<and> \<not> validate_orcid (str_value v) then Inl ''Invalid ORCID format'' else Inr v)"

definition CreatorElement :: "fld list" where
  "CreatorElement =
    [Fld ''name'' True (bounded 1 500) None,
     Fld ''type'' False (vocab [''personal'', ''corporate'', ''conference'', ''family'']) None,
     Fld ''affiliation'' False (at_most 500) None,
     Fld ''orcid'' False plain_str (Some validate_orcid_format),
     Fld ''role'' False (vocab [''author'', ''principal investigator'', ''co-investigator'',
                                ''researcher'', ''analyst'', ''institutional author'']) None]"

definition SubjectElement :: "(string \<Rightarrow> string option) \<Rightarrow> fld list" where
  "SubjectElement AnyUrl =
    [Fld ''value'' True (bounded 1 500) None,
     Fld ''scheme'' False (TEnum SubjectScheme) None,
     Fld ''uri'' False (TUrl AnyUrl) None,
     Fld ''note'' False (at_most 200) None]"

definition DescriptionElement :: "fld list" where
  "DescriptionElement =
    [Fld ''value'' True (bounded 1 5000) None,
     Fld ''type'' False (vocab [''abstract'', ''summary'', ''tableOfContents'', ''methods'', ''purpose'',
                                ''scope'', ''provenance'', ''review'', ''version'', ''other'']) None,
     Fld ''language'' False (TEnum ISO639_1) None]"

definition PublisherElement :: "(string \<Rightarrow> string option) \<Rightarrow> fld list" where
  "PublisherElement HttpUrl =
    [Fld ''name'' True (bounded 1 500) None,
     Fld ''type'' False (vocab [''commercial'', ''university'', ''government'', ''society'',
                                ''individual'', ''other'']) None,
     Fld ''location'' False (at_most 200) None,
     Fld ''website'' False (TUrl HttpUrl) None,
     Fld ''role'' False (vocab [''publisher'', ''co-publisher'', ''distributor'', ''sponsor'']) None]"

definition ContributorElement :: "fld list" where
  "ContributorElement =
    [Fld ''name'' True (bounded 1 500) None,
     Fld ''type'' False (vocab [''personal'', ''corporate'', ''conference'', ''family'']) None,
     Fld ''role'' False (vocab [''editor'', ''translator'', ''illustrator'', ''data collector'',
                                ''advisor'', ''reviewer'', ''sponsor'', ''funder'', ''distributor'',
                                ''graphics design'', ''data analyst'', ''peer reviewer'', ''other'']) None,
     Fld ''affiliation'' False (at_most 500) None]"

definition validate_date_format :: field_validator where
  "validate_date_format v values =
     (let scheme = map_of values ''scheme''
      in if scheme = Some (PStr ''W3CDTF'') \<and> \<not> validate_iso8601_date (str_value v)
         then Inl ''Invalid ISO 8601 date format for W3CDTF scheme''
         else Inr v)"

definition DateElement :: "fld list" where
  "DateElement =
    [Fld ''value'' True (TStr (Some 1) None None) (Some validate_date_format),
     Fld ''type'' False (vocab [''created'', ''valid'', ''available'', ''issued'', ''modified'',
                                ''submitted'', ''accepted'', ''copyrighted'', ''collected'', ''published'',
                                ''temporal_coverage'']) None,
     Fld ''scheme'' False (TEnum DateScheme) None,
     Fld ''note'' False (at_most 200) None]"

definition validate_dcmi_type :: field_validator where
  "validate_dcmi_type v values =
     (let scheme = map_of values ''scheme''
      in if scheme = Some (PStr ''DCMI Type Vocabulary'') \<and> str_value v \<notin> set DCMITypeVocabulary
         then Inl (''Invalid DCMI Type: '' @ str_value v)
         else Inr v)"

definition TypeElement :: "(string \<Rightarrow> string option) \<Rightarrow> fld list" where
  "TypeElement AnyUrl =
    [Fld ''value'' True (bounded 1 200) (Some validate_dcmi_type),
     Fld ''scheme'' False (vocab [''DCMI Type Vocabulary'', ''local'', ''AAT'', ''MARC Genre Terms'']) None,
     Fld ''uri'' False (TUrl AnyUrl) None]"

definition FormatElement :: "fld list" where
  "FormatElement =
    [Fld ''value'' True (bounded 1 200) None,
     Fld ''type'' False (vocab [''media_type'', ''extent'', ''medium'', ''dimensions'', ''file_size'']) None,
     Fld ''scheme'' False (vocab [''IMT'', ''local'']) None]"

definition validate_identifier_format :: field_validator where
  "validate_identifier_format v values =
     (let id_type = map_of values ''type''
      in if id_type = Some (PStr ''DOI'') \<and> \<not> validate_doi (str_value v)
           then Inl ''Invalid DOI format''
         else if id_type = Some (PStr ''ISBN'') \<and> \<not> validate_isbn (str_value v)
           then Inl ''Invalid ISBN format''
         else if id_type = Some (PStr ''ISSN'') \<and> \<not> validate_issn (str_value v)
           then Inl ''Invalid ISSN format''
         else Inr v)"

definition IdentifierElement :: "fld list" where
  "IdentifierElement =
    [Fld ''value'' True (bounded 1 500) (Some validate_identifier_format),
     Fld ''type'' False (vocab [''DOI'', ''ISBN'', ''ISSN'', ''URI'', ''URL'', ''URN'', ''Handle'', ''PMID'',
                                ''PMC'', ''arXiv'', ''local'']) None,
     Fld ''scheme'' False (TEnum IdentifierScheme) None,
     Fld ''note'' False (at_most 200) None]"

definition SourceElement :: "fld list" where
  "SourceElement =
    [Fld ''value'' True (bounded 1 1000) None,
     Fld ''type'' False (vocab [''dataset'', ''publication'', ''website'', ''database'', ''collection'',
                                ''publication_series'', ''conference_proceedings'', ''report'', ''thesis'',
                                ''remote_sensing_data'', ''field_data'']) None,
     Fld ''identifier'' False (at_most 500) None]"

definition validate_language_code :: field_validator where
  "validate_language_code v values =
     (let scheme = map_of values ''scheme''
      in if scheme = Some (PStr ''ISO 639-1'') \<and> length (str_value v) \<noteq> 2
           then Inl ''ISO 639-1 codes must be 2 characters''
         else if scheme = Some (PStr ''ISO 639-2'') \<and> length (str_value v) \<noteq> 3
           then Inl ''ISO 639-2 codes must be 3 characters''
         else if scheme = Some (PStr ''ISO 639-3'') \<and> length (str_value v) \<noteq> 3
           then Inl ''ISO 639-3 codes must be 3 characters''
         else Inr (PStr (lower (str_value v))))"

definition LanguageElement :: "fld list" where
  "LanguageElement =
    [Fld ''value'' True (bounded 2 3) (Some validate_language_code),
     Fld ''scheme'' False (vocab [''ISO 639-1'', ''ISO 639-2'', ''ISO 639-3'', ''RFC 3066'', ''local'']) None,
     Fld ''name'' False (at_most 100) None,
     Fld ''note'' False (at_most 200) None]"

definition RelationElement :: "fld list" where
  "RelationElement =
    [Fld ''value'' True (bounded 1 500) None,
     Fld ''type'' False (vocab [''isVersionOf'', ''hasVersion'', ''isReplacedBy'', ''replaces'',
                                ''isRequiredBy'', ''requires'', ''isPartOf'', ''hasPart'', ''isReferencedBy'',
                                ''references'', ''isFormatOf'', ''hasFormat'', ''conformsTo'', ''isBasedOn'',
                                ''isBasisFor'', ''continues'', ''isContinuedBy'', ''accompanies'',
                                ''isAccompaniedBy'', ''isSupplementTo'', ''isSupplementedBy'']) None,
     Fld ''description'' False (at_most 500) None]"

definition validate_coordinate_format :: field_validator where
  "validate_coordinate_format v values =
     (if v \<noteq> PNone \<and> \<not> validate_coordinates (str_value v) then Inl ''Invalid coordinate format'' else Inr v)"

definition CoverageElement :: "fld list" where
  "CoverageElement =
    [Fld ''value'' True (bounded 1 500) None,
     Fld ''type'' False (vocab [''spatial'', ''temporal'', ''jurisdiction'']) None,
     Fld ''scheme'' False (vocab [''TGN'', ''LCSH'', ''GeoNames'', ''ISO 3166'', ''WGS84'', ''W3CDTF'', ''local'']) None,
     Fld ''coordinates'' False plain_str (Some validate_coordinate_format),
     Fld ''description'' False (at_most 500) None]"

definition RightsElement :: "(string \<Rightarrow> string option) \<Rightarrow> fld list" where
  "RightsElement AnyUrl =
    [Fld ''value'' True (bounded 1 1000) None,
     Fld ''type'' False (vocab [''copyright'', ''license'', ''access_rights'', ''use_restrictions'',
                                ''data_rights'', ''embargo'', ''terms_of_use'']) None,
     Fld ''uri'' False (TUrl AnyUrl) None,
     Fld ''description'' False (at_most 500) None,
     Fld ''note'' False (at_most 200) None]"

section \<open>Additional metadata models\<close>

definition FundingElement :: "fld list" where
  "FundingElement =
    [Fld ''agency'' True (bounded 1 300) None,
     Fld ''grant_number'' False (at_most 100) None,
     Fld ''country'' False (TEnum ISO3166_1) None]"

definition QualityElement :: "fld list" where
  "QualityElement =
    [Fld ''peer_review'' False TBool None,
     Fld ''review_type'' False (vocab [''single-blind'', ''double-blind'', ''open'', ''post-publication'',
                                       ''editorial'']) None,
     Fld ''editorial_board_approved'' False TBool None]"

definition TechnicalElement :: "fld list" where
  "TechnicalElement =
    [Fld ''creation_software'' False (at_most 200) None,
     Fld ''figures_software'' False (at_most 200) None,
     Fld ''data_analysis_software'' False (at_most 200) None]"

definition hex_digit :: rx where
  "hex_digit = alts [Atom (Range CHR ''a'' CHR ''f''), Atom (Range CHR ''A'' CHR ''F''),
                     Atom (Range CHR ''0'' CHR ''9'')]"

definition PreservationElement :: "fld list" where
  "PreservationElement =
    [Fld ''checksum'' False
       (TStr None None (Some (seqs [one_of [''md5'', ''sha1'', ''sha256'', ''sha512''], lit '':'', plus hex_digit]))) None,
     Fld ''preservation_level'' False (vocab [''bit-level'', ''logical'', ''full'', ''none'']) None,
     Fld ''migration_path'' False (at_most 200) None]"

definition AdditionalMetadata :: "fld list" where
  "AdditionalMetadata =
    [Fld ''funding'' False (TList (TModel FundingElement None)) None,
     Fld ''quality'' False (TModel QualityElement None) None,
     Fld ''technical'' False (TModel TechnicalElement None) None,
     Fld ''preservation'' False (TModel PreservationElement None) None]"

definition timestamp_z :: rx where
  "timestamp_z = seqs [digits 4, lit ''-'', digits 2, lit ''-'', digits 2, lit ''T'',
                       digits 2, lit '':'', digits 2, lit '':'', digits 2, lit ''Z'']"

definition MetadataRecord :: "fld list" where
  "MetadataRecord =
    [Fld ''created_date'' False (TStr None None (Some timestamp_z)) None,
     Fld ''created_by'' False (at_most 200) None,
     Fld ''last_modified'' False (TStr None None (Some timestamp_z)) None,
     Fld ''modified_by'' False (at_most 200) None,
     Fld ''record_identifier'' False (at_most 100) None,
     Fld ''schema_version'' False (at_most 100) None,
     Fld ''encoding'' False (TStr None None (Some (lit ''UTF-8''))) None]"

section \<open>The Dublin Core model\<close>

text \<open>
  What the run depends on outside \<open>validator.py\<close>: the library's checks of \<open>AnyUrl\<close> and
  \<open>HttpUrl\<close> (the accepted URL, or \<open>None\<close>), its rendering \<open>str(e)\<close> of a
  \<open>ValidationError\<close>, the message of the \<open>TypeError\<close> that \<open>**data\<close> raises on a value
  that is no mapping, and the file system: what \<open>open\<close> followed by \<open>yaml.safe_load\<close>
  does at a path, \<open>path.stat().st_size\<close>, and \<open>str(Path(file_path))\<close>.
\<close>

datatype exn = Exn (exn_type: string) (exn_str: string)

datatype loaded = FileNotFoundError | YAMLError string | OtherError exn | Loaded pyobj

record env =
  AnyUrl :: "string \<Rightarrow> string option"
  HttpUrl :: "string \<Rightarrow> string option"
  str_ValidationError :: "verr list \<Rightarrow> string"
  str_mapping_TypeError :: "pyobj \<Rightarrow> string"
  safe_load_file :: "string \<Rightarrow> loaded"
  st_size :: "string \<Rightarrow> exn + nat"
  str_Path :: "string \<Rightarrow> string"

text \<open>The 15 element kinds, in the order of the class \<open>DublinCore\<close>, each with its model.\<close>

definition element_kinds :: "string list" where
  "element_kinds = [''title'', ''creator'', ''subject'', ''description'', ''publisher'', ''contributor'',
                    ''date'', ''type'', ''format'', ''identifier'', ''source'', ''language'', ''relation'',
                    ''coverage'', ''rights'']"

definition element_models :: "'a env_scheme \<Rightarrow> (string \<times> fld list) list" where
  "element_models lib =
    [(''title'', TitleElement),
     (''creator'', CreatorElement),
     (''subject'', SubjectElement (AnyUrl lib)),
     (''description'', DescriptionElement),
     (''publisher'', PublisherElement (HttpUrl lib)),
     (''contributor'', ContributorElement),
     (''date'', DateElement),
     (''type'', TypeElement (AnyUrl lib)),
     (''format'', FormatElement),
     (''identifier'', IdentifierElement),
     (''source'', SourceElement),
     (''language'', LanguageElement),
     (''relation'', RelationElement),
     (''coverage'', CoverageElement),
     (''rights'', RightsElement (AnyUrl lib))]"

text \<open>Every field of \<open>DublinCore\<close> is \<open>Optional[List[<Kind>Element]] = None\<close>.\<close>

definition DublinCore_fields :: "'a env_scheme \<Rightarrow> fld list" where
  "DublinCore_fields lib = map (\<lambda>(kind, model). Fld kind False (TList (TModel model None)) None) (element_models lib)"

definition validate_required_elements :: root_validator where
  "validate_required_elements values =
     (if \<not> truthy (map_of values ''title'') then Inl ''At least one title element is required''
      else if \<not> truthy (map_of values ''identifier'') then Inl ''At least one identifier element is required''
      else Inr values)"

definition DublinCoreDocument_fields :: "'a env_scheme \<Rightarrow> fld list" where
  "DublinCoreDocument_fields lib =
    [Fld ''dublin_core'' True (TModel (DublinCore_fields lib) (Some validate_required_elements)) None,
     Fld ''additional_metadata'' False (TModel AdditionalMetadata None) None,
     Fld ''metadata_record'' False (TModel MetadataRecord None) None]"

text \<open>
  The validated objects the report reads. An element instance stays the dictionary of its
  validated fields; an attribute that is \<open>None\<close> is \<open>None\<close> here.
\<close>

record DublinCore =
  title :: "pyobj list option"
  creator :: "pyobj list option"
  subject :: "pyobj list option"
  description :: "pyobj list option"
  publisher :: "pyobj list option"
  contributor :: "pyobj list option"
  date :: "pyobj list option"
  type :: "pyobj list option"
  format :: "pyobj list option"
  "identifier" :: "pyobj list option"
  source :: "pyobj list option"
  language :: "pyobj list option"
  relation :: "pyobj list option"
  coverage :: "pyobj list option"
  rights :: "pyobj list option"

record DublinCoreDocument =
  dublin_core :: DublinCore
  additional_metadata :: "pyobj option"
  metadata_record :: "pyobj option"

fun attr_list :: "pydict \<Rightarrow> string \<Rightarrow> pyobj list option" where
  "attr_list values name = (case map_of values name of Some (PList xs) \<Rightarrow> Some xs | _ \<Rightarrow> None)"

fun attr_model :: "pydict \<Rightarrow> string \<Rightarrow> pyobj option" where
  "attr_model values name = (case map_of values name of Some (PDict m) \<Rightarrow> Some (PDict m) | _ \<Rightarrow> None)"

fun attr_dict :: "pydict \<Rightarrow> string \<Rightarrow> pydict" where
  "attr_dict values name = (case map_of values name of Some (PDict m) \<Rightarrow> m | _ \<Rightarrow> [])"

definition DublinCore_of :: "pydict \<Rightarrow> DublinCore" where
  "DublinCore_of values =
     \<lparr>title = attr_list values ''title'', creator = attr_list values ''creator'',
      subject = attr_list values ''subject'', description = attr_list values ''description'',
      publisher = attr_list values ''publisher'', contributor = attr_list values ''contributor'',
      date = attr_list values ''date'', type = attr_list values ''type'',
      format = attr_list values ''format'', identifier = attr_list values ''identifier'',
      source = attr_list values ''source'', language = attr_list values ''language'',
      relation = attr_list values ''relation'', coverage = attr_list values ''coverage'',
      rights = attr_list values ''rights''\<rparr>"

definition DublinCoreDocument_of :: "pydict \<Rightarrow> DublinCoreDocument" where
  "DublinCoreDocument_of values =
     \<lparr>dublin_core = DublinCore_of (attr_dict values ''dublin_core''),
      additional_metadata = attr_model values ''additional_metadata'',
      metadata_record = attr_model values ''metadata_record''\<rparr>"

section \<open>Floating point\<close>

text \<open>
  A finite \<open>float\<close> is the rational number it denotes. \<open>round_double\<close> rounds a rational
  to the nearest number with a 53-bit significand, ties to even, as an IEEE 754 binary64
  operation rounds its exact result (for magnitudes in the normal range, which holds all
  values computed here). Python's \<open>int / int\<close> and \<open>float * int\<close> are correctly rounded.
\<close>

type_synonym pyfloat = rat

definition pow2 :: "int \<Rightarrow> rat" where
  "pow2 e = (if 0 \<le> e then 2 ^ nat e else 1 / 2 ^ nat (- e))"

definition round_half_even :: "rat \<Rightarrow> int" where
  "round_half_even q =
     (let f = \<lfloor>q\<rfloor>; r = q - of_int f
      in if r < 1 / 2 then f else if 1 / 2 < r then f + 1 else if even f then f else f + 1)"

definition floor_log2 :: "rat \<Rightarrow> int" where
  "floor_log2 q =
     (case quotient_of q of (a, b) \<Rightarrow>
        (let d = bitlen a - bitlen b in if pow2 d \<le> q then d else d - 1))"

definition round_double :: "rat \<Rightarrow> pyfloat" where
  "round_double q =
     (if q = 0 then 0
      else (let e = floor_log2 \<bar>q\<bar> - 52
            in sgn q * of_int (round_half_even (\<bar>q\<bar> / pow2 e)) * pow2 e))"

definition py_truediv :: "int \<Rightarrow> int \<Rightarrow> pyfloat" where
  "py_truediv a b = round_double (of_int a / of_int b)"

definition py_mul :: "pyfloat \<Rightarrow> int \<Rightarrow> pyfloat" where
  "py_mul x n = round_double (x * of_int n)"

section \<open>Validation pipeline\<close>

definition load_yaml_file :: "'a env_scheme \<Rightarrow> string \<Rightarrow> exn + pyobj" where
  "load_yaml_file env file_path =
     (case safe_load_file env file_path of
        Loaded data \<Rightarrow> Inr data
      | YAMLError e \<Rightarrow> Inl (Exn ''ValueError'' (''Invalid YAML format: '' @ e))
      | FileNotFoundError \<Rightarrow> Inl (Exn ''ValueError'' (''File not found: '' @ str_Path env file_path))
      | OtherError e \<Rightarrow> Inl e)"

definition validate_document :: "'a env_scheme \<Rightarrow> pyobj \<Rightarrow> exn + DublinCoreDocument" where
  "validate_document env data =
     (case data of
        PDict kwargs \<Rightarrow>
          (case validate_model (DublinCoreDocument_fields env) None kwargs of
             Inl e \<Rightarrow> Inl (Exn ''ValueError'' (''Validation failed: '' @ str_ValidationError env e))
           | Inr values \<Rightarrow> Inr (DublinCoreDocument_of values))
      | _ \<Rightarrow> Inl (Exn ''TypeError'' (str_mapping_TypeError env data)))"

text \<open>A report is a dictionary; its keys are kept in the order the source writes them.\<close>

datatype rval = RStr string | RInt int | RFloat pyfloat | RBool bool | RDict "(string \<times> int) list"

type_synonym report = "(string \<times> rval) list"

text \<open>\<open>len(x or [])\<close>\<close>

definition len_or_empty :: "pyobj list option \<Rightarrow> int" where
  "len_or_empty x = int (length (case x of None \<Rightarrow> [] | Some xs \<Rightarrow> xs))"

definition count_elements :: "DublinCore \<Rightarrow> (string \<times> int) list" where
  "count_elements dc =
    [(''title'', len_or_empty (title dc)),
     (''creator'', len_or_empty (creator dc)),
     (''subject'', len_or_empty (subject dc)),
     (''description'', len_or_empty (description dc)),
     (''publisher'', len_or_empty (publisher dc)),
     (''contributor'', len_or_empty (contributor dc)),
     (''date'', len_or_empty (date dc)),
     (''type'', len_or_empty (type dc)),
     (''format'', len_or_empty (format dc)),
     (''identifier'', len_or_empty (identifier dc)),
     (''source'', len_or_empty (source dc)),
     (''language'', len_or_empty (language dc)),
     (''relation'', len_or_empty (relation dc)),
     (''coverage'', len_or_empty (coverage dc)),
     (''rights'', len_or_empty (rights dc))]"

definition create_validation_report :: "DublinCoreDocument \<Rightarrow> report" where
  "create_validation_report document =
     (let dc = dublin_core document;
          element_counts = count_elements dc;
          total_elements = sum_list (map snd element_counts);
          populated_elements = sum_list (map (\<lambda>count. 1) (filter (\<lambda>count. 0 < count) (map snd element_counts)))
      in [(''validation_status'', RStr ''PASSED''),
          (''total_elements'', RInt total_elements),
          (''populated_elements'', RInt populated_elements),
          (''completeness_percentage'', RFloat (py_mul (py_truediv populated_elements 15) 100)),
          (''element_counts'', RDict element_counts),
          (''has_additional_metadata'', RBool (additional_metadata document \<noteq> None)),
          (''has_metadata_record'', RBool (metadata_record document \<noteq> None))])"

text \<open>
  \<open>validation_decorator\<close>: the wrapped function's result, or the report the handler of
  \<open>except Exception as e\<close> builds from \<open>str(e)\<close> and \<open>type(e).__name__\<close>.
\<close>

definition failure_report :: "exn \<Rightarrow> report" where
  "failure_report e =
     [(''validation_status'', RStr ''FAILED''),
      (''error'', RStr (exn_str e)),
      (''error_type'', RStr (exn_type e))]"

definition validation_decorator :: "('x \<Rightarrow> exn + report) \<Rightarrow> 'x \<Rightarrow> report" where
  "validation_decorator func x = (case func x of Inr result \<Rightarrow> result | Inl e \<Rightarrow> failure_report e)"

text \<open>The body of \<open>validate_dublin_core_yaml\<close>, before the decorator is applied.\<close>

definition validate_dublin_core_yaml_body :: "'a env_scheme \<Rightarrow> string \<Rightarrow> exn + report" where
  "validate_dublin_core_yaml_body env file_path =
     (case load_yaml_file env file_path of
        Inl e \<Rightarrow> Inl e
      | Inr data \<Rightarrow>
          (case validate_document env data of
             Inl e \<Rightarrow> Inl e
           | Inr document \<Rightarrow>
               (let report = create_validation_report document
                in case st_size env file_path of
                     Inl e \<Rightarrow> Inl e
                   | Inr nbytes \<Rightarrow> Inr (report @ [(''file_path'', RStr (str_Path env file_path)),
                                                 (''file_size_bytes'', RInt (int nbytes))]))))"

definition validate_dublin_core_yaml :: "'a env_scheme \<Rightarrow> string \<Rightarrow> report" where
  "validate_dublin_core_yaml env = validation_decorator (validate_dublin_core_yaml_body env)"

section \<open>The example document of the command line tool\<close>

text \<open>
  What \<open>yaml.safe_load\<close> returns for the text \<open>example_yaml\<close> of the \<open>example\<close> command
  in \<open>cli.py\<close>: every scalar of it is a quoted string, except \<open>peer_review: true\<close>.
\<close>

definition example_title :: pyobj where
  "example_title =
    PList
      [PDict [(''value'', PStr ''Sample Research Dataset: Climate Change Impact on Coastal Ecosystems''),
              (''type'', PStr ''main''),
              (''language'', PStr ''en'')],
       PDict [(''value'', PStr (''Impacto del Cambio Clim'' @ [CHR 0xE1] @ ''tico en Ecosistemas Costeros: Conjunto de Datos de Investigaci'' @ [CHR 0xF3] @ ''n'')),
              (''type'', PStr ''translated''),
              (''language'', PStr ''es'')]]"

definition example_creator :: pyobj where
  "example_creator =
    PList
      [PDict [(''name'', PStr ''Dr. Jane Smith''),
              (''type'', PStr ''personal''),
              (''orcid'', PStr ''0000-0002-1825-0097''),
              (''affiliation'', PStr ''University of Marine Sciences''),
              (''role'', PStr ''principal investigator'')],
       PDict [(''name'', PStr ''Dr. Robert Johnson''),
              (''type'', PStr ''personal''),
              (''affiliation'', PStr ''Coastal Research Institute''),
              (''role'', PStr ''co-investigator'')]]"

definition example_subject :: pyobj where
  "example_subject =
    PList
      [PDict [(''value'', PStr ''Climate change''),
              (''scheme'', PStr ''LCSH'')],
       PDict [(''value'', PStr ''Coastal ecology''),
              (''scheme'', PStr ''LCSH'')],
       PDict [(''value'', PStr ''Marine biology''),
              (''scheme'', PStr ''LCSH'')],
       PDict [(''value'', PStr ''Environmental monitoring''),
              (''scheme'', PStr ''keyword'')]]"

definition example_description :: pyobj where
  "example_description =
    PList
      [PDict [(''value'', PStr ''This dataset contains comprehensive measurements of coastal ecosystem parameters collected over a 5-year period to assess climate change impacts. Includes water temperature, salinity, pH levels, species abundance, and biodiversity indices from 15 monitoring stations along the Pacific coast.''),
              (''type'', PStr ''abstract''),
              (''language'', PStr ''en'')]]"

definition example_publisher :: pyobj where
  "example_publisher =
    PList
      [PDict [(''name'', PStr ''University of Marine Sciences Data Repository''),
              (''type'', PStr ''university''),
              (''location'', PStr ''California, USA''),
              (''website'', PStr ''https://data.umarine.edu'')]]"

definition example_contributor :: pyobj where
  "example_contributor =
    PList
      [PDict [(''name'', PStr ''Marine Data Consortium''),
              (''type'', PStr ''corporate''),
              (''role'', PStr ''data collector'')],
       PDict [(''name'', PStr ''Dr. Maria Garcia''),
              (''type'', PStr ''personal''),
              (''role'', PStr ''data analyst'')]]"

definition example_date :: pyobj where
  "example_date =
    PList
      [PDict [(''value'', PStr ''2024-01-15''),
              (''type'', PStr ''created''),
              (''scheme'', PStr ''W3CDTF'')],
       PDict [(''value'', PStr ''2024-02-01''),
              (''type'', PStr ''available''),
              (''scheme'', PStr ''W3CDTF'')],
       PDict [(''value'', PStr ''2019/2023''),
              (''type'', PStr ''temporal_coverage''),
              (''scheme'', PStr ''W3CDTF'')]]"

definition example_type :: pyobj where
  "example_type =
    PList
      [PDict [(''value'', PStr ''Dataset''),
              (''scheme'', PStr ''DCMI Type Vocabulary'')]]"

definition example_format :: pyobj where
  "example_format =
    PList
      [PDict [(''value'', PStr ''text/csv''),
              (''type'', PStr ''media_type''),
              (''scheme'', PStr ''IMT'')],
       PDict [(''value'', PStr ''2.5 GB''),
              (''type'', PStr ''file_size'')]]"

definition example_identifier :: pyobj where
  "example_identifier =
    PList
      [PDict [(''value'', PStr ''https://doi.org/10.5555/example.dataset.2024''),
              (''type'', PStr ''DOI''),
              (''scheme'', PStr ''URI'')],
       PDict [(''value'', PStr ''UMDS-2024-001''),
              (''type'', PStr ''local'')]]"

definition example_language :: pyobj where
  "example_language =
    PList
      [PDict [(''value'', PStr ''en''),
              (''scheme'', PStr ''ISO 639-1''),
              (''name'', PStr ''English'')]]"

definition example_coverage :: pyobj where
  "example_coverage =
    PList
      [PDict [(''value'', PStr ''Pacific Coast, California, USA''),
              (''type'', PStr ''spatial''),
              (''scheme'', PStr ''TGN''),
              (''coordinates'', PStr ''lat: 32.7157-37.8044, lon: -117.1611--122.4194'')],
       PDict [(''value'', PStr ''2019-01-01/2023-12-31''),
              (''type'', PStr ''temporal''),
              (''scheme'', PStr ''W3CDTF'')]]"

definition example_rights :: pyobj where
  "example_rights =
    PList
      [PDict [(''value'', PStr ''Creative Commons Attribution 4.0 International License''),
              (''type'', PStr ''license''),
              (''uri'', PStr ''https://creativecommons.org/licenses/by/4.0/'')]]"

definition example_additional_metadata :: pyobj where
  "example_additional_metadata =
    PDict
      [(''funding'', PList
          [PDict [(''agency'', PStr ''National Science Foundation''),
                  (''grant_number'', PStr ''OCE-1234567''),
                  (''country'', PStr ''US'')],
           PDict [(''agency'', PStr ''California Ocean Protection Council''),
                  (''grant_number'', PStr ''OPC-ENV-2019-05''),
                  (''country'', PStr ''US'')]]),
       (''quality'', PDict [(''peer_review'', PBool True),
               (''review_type'', PStr ''double-blind'')]),
       (''technical'', PDict [(''creation_software'', PStr ''R 4.3.0, Python 3.9''),
               (''data_analysis_software'', PStr ''R packages: tidyverse, vegan, ggplot2'')])]"

definition example_metadata_record :: pyobj where
  "example_metadata_record =
    PDict [(''created_date'', PStr ''2024-01-15T10:30:00Z''),
           (''created_by'', PStr ''Dr. Jane Smith''),
           (''record_identifier'', PStr ''UMDS-META-2024-001''),
           (''schema_version'', PStr ''Dublin Core 1.1 Extended''),
           (''encoding'', PStr ''UTF-8'')]"

definition example_dublin_core :: pyobj where
  "example_dublin_core =
    PDict
      [(''title'', example_title),
       (''creator'', example_creator),
       (''subject'', example_subject),
       (''description'', example_description),
       (''publisher'', example_publisher),
       (''contributor'', example_contributor),
       (''date'', example_date),
       (''type'', example_type),
       (''format'', example_format),
       (''identifier'', example_identifier),
       (''language'', example_language),
       (''coverage'', example_coverage),
       (''rights'', example_rights)]"

definition example_document :: pyobj where
  "example_document =
    PDict
      [(''dublin_core'', example_dublin_core),
       (''additional_metadata'', example_additional_metadata),
       (''metadata_record'', example_metadata_record)]"

section \<open>Concrete environments\<close>

text \<open>
  An environment with one file: opening and loading \<open>path\<close> has the outcome \<open>outcome\<close>,
  the file has \<open>nbytes\<close> bytes, and no other file exists. Its URL checks accept what starts
  with \<open>http://\<close> or \<open>https://\<close>.
\<close>

definition http_prefixed :: "string \<Rightarrow> string option" where
  "http_prefixed s = (if take 7 s = ''http://'' \<or> take 8 s = ''https://'' then Some s else None)"

definition single_file_env :: "string \<Rightarrow> loaded \<Rightarrow> nat \<Rightarrow> env" where
  "single_file_env path outcome nbytes =
     \<lparr>AnyUrl = http_prefixed,
      HttpUrl = http_prefixed,
      str_ValidationError = (\<lambda>errors. show_nat (length errors) @ '' validation errors''),
      str_mapping_TypeError = (\<lambda>v. ''argument after ** must be a mapping''),
      safe_load_file = (\<lambda>p. if p = path then outcome else FileNotFoundError),
      st_size = (\<lambda>p. if p = path then Inr nbytes else Inl (Exn ''FileNotFoundError'' p)),
      str_Path = (\<lambda>p. p)\<rparr>"



definition bad_doi_document :: pyobj where
  "bad_doi_document =
     PDict [(''dublin_core'', PDict
              [(''title'', PList [PDict [(''value'', PStr ''Test Document'')]]),
               (''identifier'', PList [PDict [(''value'', PStr ''not-a-doi''), (''type'', PStr ''DOI'')]])])]"

definition extra_field_document :: pyobj where
  "extra_field_document =
     PDict [(''dublin_core'', PDict
              [(''title'', PList [PDict [(''value'', PStr ''Test Document''), (''subtitle'', PStr ''A Draft'')]]),
               (''identifier'', PList [PDict [(''value'', PStr ''UMDS-2024-001''), (''type'', PStr ''local'')]])])]"

section \<open>Notions used in the statements\<close>

text \<open>The set of strings a pattern denotes; \<open>star L\<close> is the repetition of \<open>L\<close>.\<close>

inductive_set star :: "string set \<Rightarrow> string set" for L :: "string set" where
  star_empty: "[] \<in> star L"
| star_more: "u \<in> L \<Longrightarrow> v \<in> star L \<Longrightarrow> u @ v \<in> star L"

fun lang :: "bool \<Rightarrow> rx \<Rightarrow> string set" where
  "lang ic Fail = {}"
| "lang ic Empty = {[]}"
| "lang ic (Atom a) = {[c] | c. atom_match ic a c}"
| "lang ic (Seq r s) = {u @ v | u v. u \<in> lang ic r \<and> v \<in> lang ic s}"
| "lang ic (Alt r s) = lang ic r \<union> lang ic s"
| "lang ic (Star r) = star (lang ic r)"

text \<open>What one field contributes in \<open>validate_fields\<close>: its errors, or the value stored.\<close>

definition field_outcome :: "fld \<Rightarrow> pydict \<Rightarrow> pydict \<Rightarrow> verr list + pyobj" where
  "field_outcome f input_data values =
     (case f of Fld name required ty fv \<Rightarrow>
        (case map_of input_data name of
           None \<Rightarrow> if required then Inl [VErr [name] ''field required''] else Inr PNone
         | Some value \<Rightarrow>
             (case (if value = PNone
                    then (if required then Inl [VErr [] ''none is not an allowed value'']
                          else run_validator fv PNone values)
                    else (case validate_type ty value of
                            Inl es \<Rightarrow> Inl es
                          | Inr v \<Rightarrow> run_validator fv v values)) of
                Inl es \<Rightarrow> Inl (map (at_loc name) es)
              | Inr v \<Rightarrow> Inr v)))"


text \<open>The attribute of \<open>DublinCore\<close> that holds a kind, and the instances it holds.\<close>

definition element_lists :: "DublinCore \<Rightarrow> (string \<times> pyobj list option) list" where
  "element_lists dc =
    [(''title'', title dc), (''creator'', creator dc), (''subject'', subject dc),
     (''description'', description dc), (''publisher'', publisher dc),
     (''contributor'', contributor dc), (''date'', date dc), (''type'', type dc),
     (''format'', format dc), (''identifier'', identifier dc), (''source'', source dc),
     (''language'', language dc), (''relation'', relation dc), (''coverage'', coverage dc),
     (''rights'', rights dc)]"

definition kind_instances :: "DublinCore \<Rightarrow> string \<Rightarrow> pyobj list" where
  "kind_instances dc kind = (case map_of (element_lists dc) kind of Some (Some xs) \<Rightarrow> xs | _ \<Rightarrow> [])"

definition populated_kinds :: "DublinCore \<Rightarrow> nat" where
  "populated_kinds dc = length (filter (\<lambda>kind. kind_instances dc kind \<noteq> []) element_kinds)"

text \<open>A document object none of whose attributes is set.\<close>

definition empty_document :: DublinCoreDocument where
  "empty_document =
     \<lparr>dublin_core =
        \<lparr>title = None, creator = None, subject = None, description = None, publisher = None,
         contributor = None, date = None, type = None, format = None, identifier = None,
         source = None, language = None, relation = None, coverage = None, rights = None\<rparr>,
      additional_metadata = None, metadata_record = None\<rparr>"

text \<open>Tests on the result of \<open>validate_type\<close>: a list of \<open>n\<close> validated items; a validated model.\<close>

definition list_of_length :: "nat \<Rightarrow> verr list + pyobj \<Rightarrow> bool" where
  "list_of_length n r = (case r of Inr (PList ys) \<Rightarrow> length ys = n | _ \<Rightarrow> False)"

definition is_model :: "verr list + pyobj \<Rightarrow> bool" where
  "is_model r = (case r of Inr (PDict m) \<Rightarrow> True | _ \<Rightarrow> False)"

section \<open>The matcher decides the language of a pattern\<close>

lemma nullable_lang: "nullable r \<longleftrightarrow> [] \<in> lang ic r"
  by (induction r) (auto intro: star_empty)

lemma lang_seq: "lang ic (seq r s) = lang ic (Seq r s)"
  by (induction r s rule: seq.induct) auto

lemma lang_alt: "lang ic (alt r s) = lang ic r \<union> lang ic s"
  by (induction r s rule: alt.induct) auto

lemma star_split:
  assumes "x \<in> star L" and "x = c # w"
  shows "\<exists>u v. w = u @ v \<and> c # u \<in> L \<and> v \<in> star L"
  using assms
proof (induction arbitrary: w rule: star.induct)
  case star_empty
  then show ?case by simp
next
  case (star_more u v)
  show ?case
  proof (cases u)
    case Nil
    with star_more show ?thesis by simp
  next
    case (Cons d u')
    with star_more.prems have "d = c" "w = u' @ v" by simp_all
    with Cons star_more.hyps show ?thesis by blast
  qed
qed

lemma star_cons: "c # w \<in> star L \<longleftrightarrow> (\<exists>u v. w = u @ v \<and> c # u \<in> L \<and> v \<in> star L)"
proof
  assume "c # w \<in> star L"
  then show "\<exists>u v. w = u @ v \<and> c # u \<in> L \<and> v \<in> star L" by (rule star_split) simp
next
  assume "\<exists>u v. w = u @ v \<and> c # u \<in> L \<and> v \<in> star L"
  then obtain u v where "w = u @ v" "c # u \<in> L" "v \<in> star L" by blast
  then show "c # w \<in> star L" using star_more [of "c # u" L v] by simp
qed

lemma lang_deriv: "lang ic (deriv ic c r) = {w. c # w \<in> lang ic r}"
proof (induction r)
  case (Seq r s)
  have "{w. c # w \<in> lang ic (Seq r s)} =
          {u @ v | u v. c # u \<in> lang ic r \<and> v \<in> lang ic s} \<union>
          (if [] \<in> lang ic r then {w. c # w \<in> lang ic s} else {})"
    by (auto simp: Cons_eq_append_conv)
  with Seq show ?case by (auto simp: lang_seq lang_alt nullable_lang [of _ ic])
next
  case (Star r)
  then show ?case by (auto simp: lang_seq star_cons)
qed (auto simp: lang_alt)

lemma full_match_lang: "full_match ic r w \<longleftrightarrow> w \<in> lang ic r"
  by (induction w arbitrary: r) (simp_all add: nullable_lang [of _ ic] lang_deriv)

lemma re_match_lang:
  "re_match ic r s \<longleftrightarrow> s \<in> lang ic r \<or> (\<exists>t. s = t @ [newline] \<and> t \<in> lang ic r)"
proof -
  have "(s \<noteq> [] \<and> last s = newline \<and> butlast s \<in> lang ic r) \<longleftrightarrow> (\<exists>t. s = t @ [newline] \<and> t \<in> lang ic r)"
    by (metis append_butlast_last_id butlast_snoc last_snoc snoc_eq_iff_butlast)
  then show ?thesis by (simp add: re_match_def full_match_lang)
qed

section \<open>Properties of the validation engine\<close>

lemma validate_fields_step:
  "validate_fields (f # flds) input_data ve =
     (case field_outcome f input_data (fst ve) of
        Inl es \<Rightarrow> validate_fields flds input_data (fst ve, snd ve @ es)
      | Inr v \<Rightarrow> validate_fields flds input_data (fst ve @ [(fld_name f, v)], snd ve))"
  by (cases f) (simp add: field_outcome_def split: option.splits sum.splits)

lemma constr_Inl_nonempty: "constr a b c s = Inl es \<Longrightarrow> es \<noteq> []"
  by (auto simp: constr_def split: if_splits)

lemma validate_type_Inl_nonempty: "validate_type ty v = Inl es \<Longrightarrow> es \<noteq> []"
  by (cases ty) (auto simp: validate_type.simps split: option.splits pyobj.splits if_splits sum.splits prod.splits dest: constr_Inl_nonempty)

lemma run_validator_Inl_nonempty: "run_validator fv v values = Inl es \<Longrightarrow> es \<noteq> []"
  by (auto simp: run_validator_def split: option.splits sum.splits)

lemma field_outcome_Inl_nonempty: "field_outcome f input_data values = Inl es \<Longrightarrow> es \<noteq> []"
  by (cases f) (auto simp: field_outcome_def split: option.splits if_splits sum.splits
      dest: validate_type_Inl_nonempty run_validator_Inl_nonempty)

lemma validate_fields_keeps_errors:
  "snd ve \<noteq> [] \<Longrightarrow> snd (validate_fields flds input_data ve) \<noteq> []"
proof (induction flds arbitrary: ve)
  case Nil
  then show ?case by simp
next
  case (Cons f flds)
  show ?case
  proof (cases "field_outcome f input_data (fst ve)")
    case (Inl es)
    with Cons show ?thesis by (simp add: validate_fields_step)
  next
    case (Inr v)
    with Cons show ?thesis by (simp add: validate_fields_step)
  qed
qed

lemma validate_fields_failing_field:
  assumes "f \<in> set flds" and "\<And>values. isl (field_outcome f input_data values)"
  shows "snd (validate_fields flds input_data ve) \<noteq> []"
  using assms(1)
proof (induction flds arbitrary: ve)
  case Nil
  then show ?case by simp
next
  case (Cons g flds)
  show ?case
  proof (cases "g = f")
    case True
    obtain es where es: "field_outcome f input_data (fst ve) = Inl es"
      using assms(2) [of "fst ve"] by (cases "field_outcome f input_data (fst ve)") auto
    then have "es \<noteq> []" by (rule field_outcome_Inl_nonempty)
    then have "snd (fst ve, snd ve @ es) \<noteq> []" by simp
    then have "snd (validate_fields flds input_data (fst ve, snd ve @ es)) \<noteq> []"
      by (rule validate_fields_keeps_errors)
    with True es show ?thesis by (simp add: validate_fields_step)
  next
    case False
    with Cons.prems have "f \<in> set flds" by simp
    then have "\<And>ve'. snd (validate_fields flds input_data ve') \<noteq> []" by (rule Cons.IH)
    then show ?thesis by (simp add: validate_fields_step split: sum.splits)
  qed
qed



lemma validate_items_failing_item:
  "x \<in> set xs \<Longrightarrow> x = PNone \<or> isl (validate_type item x) \<Longrightarrow> snd (validate_items item i xs) \<noteq> []"
proof (induction xs arbitrary: i)
  case Nil
  then show ?case by simp
next
  case (Cons y ys)
  show ?case
  proof (cases "y = x")
    case True
    with Cons.prems(2) show ?thesis
      by (auto split: sum.splits prod.splits dest: validate_type_Inl_nonempty)
  next
    case False
    with Cons have "snd (validate_items item (Suc i) ys) \<noteq> []" by simp
    then show ?thesis by (auto split: sum.splits prod.splits)
  qed
qed



lemma run_root_keeps_errors: "snd ve \<noteq> [] \<Longrightarrow> snd (run_root rootv ve) \<noteq> []"
  by (auto simp: run_root_def split: option.splits sum.splits)

lemma extra_errors_nonempty:
  assumes "name \<in> fst ` set input_data" and "name \<notin> set (map fld_name flds)"
  shows "extra_errors flds input_data \<noteq> []"
proof -
  have "name \<in> set (sort (remdups (filter (\<lambda>k. k \<notin> set (map fld_name flds)) (map fst input_data))))"
    using assms by auto
  then show ?thesis unfolding extra_errors_def by (metis empty_iff list.map_disc_iff list.set(1))
qed

lemma validate_model_extra_field:
  assumes "name \<in> fst ` set input_data" and "name \<notin> set (map fld_name flds)"
  shows "isl (validate_model flds rootv input_data)"
proof -
  obtain vs es where vf: "validate_fields flds input_data ([], []) = (vs, es)"
    by (cases "validate_fields flds input_data ([], [])")
  have "snd (vs, es @ extra_errors flds input_data) \<noteq> []"
    using extra_errors_nonempty [OF assms] by simp
  then have "snd (run_root rootv (vs, es @ extra_errors flds input_data)) \<noteq> []"
    by (rule run_root_keeps_errors)
  with vf show ?thesis by (auto simp: validate_model.simps split: prod.splits)
qed


lemma validate_model_failing_field:
  assumes "f \<in> set flds" and "\<And>values. isl (field_outcome f input_data values)"
  shows "isl (validate_model flds rootv input_data)"
proof -
  obtain vs es where vf: "validate_fields flds input_data ([], []) = (vs, es)"
    by (cases "validate_fields flds input_data ([], [])")
  have "es \<noteq> []" using validate_fields_failing_field [OF assms, of "([], [])"] vf by simp
  then have "snd (run_root rootv (vs, es @ extra_errors flds input_data)) \<noteq> []"
    by (intro run_root_keeps_errors) simp
  with vf show ?thesis by (auto simp: validate_model.simps split: prod.splits)
qed

section \<open>Properties of the document model and the pipeline\<close>


lemma kind_field: 
  "(kind, model) \<in> set (element_models env) \<Longrightarrow>
     Fld kind False (TList (TModel model None)) None \<in> set (DublinCore_fields env)"
  by (force simp: DublinCore_fields_def)

lemma list_field_outcome:
  "field_outcome (Fld kind False (TList item) None) input_data vs =
     (case map_of input_data kind of
        None \<Rightarrow> Inr PNone
      | Some v \<Rightarrow> if v = PNone then Inr PNone
                  else (case validate_type (TList item) v of
                          Inl es \<Rightarrow> Inl (map (at_loc kind) es) | Inr r \<Rightarrow> Inr r))"
  by (simp add: field_outcome_def run_validator_def split: option.splits sum.splits)

lemma model_field_outcome:
  "field_outcome (Fld name True (TModel flds rootv) None) input_data vs =
     (case map_of input_data name of
        None \<Rightarrow> Inl [VErr [name] ''field required'']
      | Some v \<Rightarrow> if v = PNone then Inl (map (at_loc name) [VErr [] ''none is not an allowed value''])
                  else (case validate_type (TModel flds rootv) v of
                          Inl es \<Rightarrow> Inl (map (at_loc name) es) | Inr r \<Rightarrow> Inr r))"
  by (simp add: field_outcome_def run_validator_def split: option.splits sum.splits)

lemma dublin_core_extra_field:
  assumes "(kind, model) \<in> set (element_models env)"
    and "map_of dc kind = Some (PList instances)"
    and "PDict inst \<in> set instances"
    and "name \<in> fst ` set inst"
    and "name \<notin> set (map fld_name model)"
  shows "isl (validate_model (DublinCore_fields env) rootv dc)"
proof -
  have "isl (validate_model model None inst)"
    using assms(4,5) by (rule validate_model_extra_field)
  then have "isl (validate_type (TModel model None) (PDict inst))"
    by (auto simp: validate_type.simps split: sum.splits)
  with assms(3) have "snd (validate_items (TModel model None) 0 instances) \<noteq> []"
    by (intro validate_items_failing_item) auto
  then have "isl (validate_type (TList (TModel model None)) (PList instances))"
    by (auto simp: validate_type.simps split: prod.splits)
  then have "\<And>vs. isl (field_outcome (Fld kind False (TList (TModel model None)) None) dc vs)"
    using assms(2) by (auto simp: list_field_outcome split: sum.splits)
  with kind_field [OF assms(1)] show ?thesis by (rule validate_model_failing_field)
qed

lemma document_dublin_core_fails:
  assumes "map_of kwargs ''dublin_core'' = Some (PDict dc)"
    and "isl (validate_model (DublinCore_fields env) (Some validate_required_elements) dc)"
  shows "isl (validate_model (DublinCoreDocument_fields env) None kwargs)"
proof -
  let ?f = "Fld ''dublin_core'' True (TModel (DublinCore_fields env) (Some validate_required_elements)) None"
  have "?f \<in> set (DublinCoreDocument_fields env)" by (simp add: DublinCoreDocument_fields_def)
  moreover have "\<And>vs. isl (field_outcome ?f kwargs vs)"
    using assms by (auto simp: model_field_outcome validate_type.simps split: sum.splits)
  ultimately show ?thesis by (rule validate_model_failing_field)
qed





lemma create_validation_report_status:
  "map_of (create_validation_report document @ extra) ''validation_status'' = Some (RStr ''PASSED'')"
  by (simp add: create_validation_report_def Let_def)




lemma count_elements_keys: "map fst (count_elements dc) = element_kinds"
  by (simp add: count_elements_def element_kinds_def)


lemma len_or_empty_instances:
  "len_or_empty x = int (length (case x of None \<Rightarrow> [] | Some xs \<Rightarrow> xs))"
  by (simp add: len_or_empty_def)

lemma count_elements_as_map:
  "count_elements dc = map (\<lambda>kind. (kind, int (length (kind_instances dc kind)))) element_kinds"
  by (simp add: count_elements_def element_kinds_def kind_instances_def element_lists_def len_or_empty_def)

lemma sum_ones: "sum_list (map (\<lambda>count. 1) xs) = int (length xs)"
  by (induction xs) simp_all

lemma populated_elements_eq:
  "sum_list (map (\<lambda>count. 1) (filter (\<lambda>count. 0 < count) (map snd (count_elements dc)))) =
     int (populated_kinds dc)"
  by (simp add: sum_ones count_elements_as_map populated_kinds_def filter_map o_def)


lemma report_fields:
  "map_of (create_validation_report document @ extra) ''element_counts'' =
     Some (RDict (count_elements (dublin_core document)))"
  "map_of (create_validation_report document @ extra) ''total_elements'' =
     Some (RInt (sum_list (map snd (count_elements (dublin_core document)))))"
  "map_of (create_validation_report document @ extra) ''populated_elements'' =
     Some (RInt (int (populated_kinds (dublin_core document))))"
  "map_of (create_validation_report document @ extra) ''completeness_percentage'' =
     Some (RFloat (py_mul (py_truediv (int (populated_kinds (dublin_core document))) 15) 100))"
  "map_of (create_validation_report document @ extra) ''has_additional_metadata'' =
     Some (RBool (additional_metadata document \<noteq> None))"
  "map_of (create_validation_report document @ extra) ''has_metadata_record'' =
     Some (RBool (metadata_record document \<noteq> None))"
  by (simp_all add: create_validation_report_def Let_def populated_elements_eq)

lemma title_model: "(''title'', TitleElement) \<in> set (element_models env)"
  by (simp add: element_models_def)








lemma failing_validation:
  assumes "safe_load_file env p = Loaded (PDict kwargs)"
    and "validate_model (DublinCoreDocument_fields env) None kwargs = Inl es"
  shows "validate_dublin_core_yaml env p =
           failure_report (Exn ''ValueError'' (''Validation failed: '' @ str_ValidationError env es))"
proof -
  have "load_yaml_file env p = Inr (PDict kwargs)" using assms(1) by (simp add: load_yaml_file_def)
  moreover have "validate_document env (PDict kwargs) =
      Inl (Exn ''ValueError'' (''Validation failed: '' @ str_ValidationError env es))"
    using assms(2) by (simp add: validate_document_def)
  ultimately show ?thesis
    by (simp add: validate_dublin_core_yaml_def validation_decorator_def validate_dublin_core_yaml_body_def)
qed

lemma kind_instances_length:
  "kind \<in> set element_kinds \<Longrightarrow>
     map_of (count_elements dc) kind = Some (int (length (kind_instances dc kind)))"
  unfolding count_elements_as_map by (simp add: map_of_map_restrict)

lemma element_field_names:
  "map (\<lambda>(kind, model). (kind, map fld_name model)) (element_models env) =
    [(''title'', [''value'', ''type'', ''language'']),
     (''creator'', [''name'', ''type'', ''affiliation'', ''orcid'', ''role'']),
     (''subject'', [''value'', ''scheme'', ''uri'', ''note'']),
     (''description'', [''value'', ''type'', ''language'']),
     (''publisher'', [''name'', ''type'', ''location'', ''website'', ''role'']),
     (''contributor'', [''name'', ''type'', ''role'', ''affiliation'']),
     (''date'', [''value'', ''type'', ''scheme'', ''note'']),
     (''type'', [''value'', ''scheme'', ''uri'']),
     (''format'', [''value'', ''type'', ''scheme'']),
     (''identifier'', [''value'', ''type'', ''scheme'', ''note'']),
     (''source'', [''value'', ''type'', ''identifier'']),
     (''language'', [''value'', ''scheme'', ''name'', ''note'']),
     (''relation'', [''value'', ''type'', ''description'']),
     (''coverage'', [''value'', ''type'', ''scheme'', ''coordinates'', ''description'']),
     (''rights'', [''value'', ''type'', ''uri'', ''description'', ''note''])]"
  by (simp add: element_models_def TitleElement_def CreatorElement_def SubjectElement_def
      DescriptionElement_def PublisherElement_def ContributorElement_def DateElement_def
      TypeElement_def FormatElement_def IdentifierElement_def SourceElement_def LanguageElement_def
      RelationElement_def CoverageElement_def RightsElement_def)

lemma element_models_kinds: "map fst (element_models env) = element_kinds"
  by (simp add: element_models_def element_kinds_def)

lemma list_of_lengthD:
  "list_of_length n r \<Longrightarrow> \<exists>ys. r = Inr (PList ys) \<and> length ys = n"
  by (auto simp: list_of_length_def split: sum.splits pyobj.splits)

lemma is_modelD: "is_model r \<Longrightarrow> \<exists>m. r = Inr (PDict m)"
  by (auto simp: is_model_def split: sum.splits pyobj.splits)

lemma optional_model_field_outcome:
  "field_outcome (Fld name False (TModel flds rootv) None) input_data vs =
     (case map_of input_data name of
        None \<Rightarrow> Inr PNone
      | Some v \<Rightarrow> if v = PNone then Inr PNone
                  else (case validate_type (TModel flds rootv) v of
                          Inl es \<Rightarrow> Inl (map (at_loc name) es) | Inr r \<Rightarrow> Inr r))"
  by (simp add: field_outcome_def run_validator_def split: option.splits sum.splits)

lemma example_kinds_closed:
  "list_of_length 2 (validate_type (TList (TModel TitleElement None)) example_title)"
  "list_of_length 2 (validate_type (TList (TModel CreatorElement None)) example_creator)"
  "list_of_length 4 (validate_type (TList (TModel (SubjectElement f) None)) example_subject)"
  "list_of_length 1 (validate_type (TList (TModel DescriptionElement None)) example_description)"
  "list_of_length 2 (validate_type (TList (TModel ContributorElement None)) example_contributor)"
  "list_of_length 3 (validate_type (TList (TModel DateElement None)) example_date)"
  "list_of_length 1 (validate_type (TList (TModel (TypeElement f) None)) example_type)"
  "list_of_length 2 (validate_type (TList (TModel FormatElement None)) example_format)"
  "list_of_length 2 (validate_type (TList (TModel IdentifierElement None)) example_identifier)"
  "list_of_length 1 (validate_type (TList (TModel LanguageElement None)) example_language)"
  "list_of_length 2 (validate_type (TList (TModel CoverageElement None)) example_coverage)"
  "is_model (validate_type (TModel AdditionalMetadata None) example_additional_metadata)"
  "is_model (validate_type (TModel MetadataRecord None) example_metadata_record)"
  by code_simp+

lemma example_publisher_valid:
  "HttpUrl env ''https://data.umarine.edu'' = Some w \<Longrightarrow>
   list_of_length 1 (validate_type (TList (TModel (PublisherElement (HttpUrl env)) None)) example_publisher)"
  by (simp add: list_of_length_def validate_type.simps validate_model.simps example_publisher_def
       PublisherElement_def run_root_def run_validator_def extra_errors_def bounded_def at_most_def vocab_def
       constr_def one_of_def re_match_def)

lemma example_rights_valid:
  "AnyUrl env ''https://creativecommons.org/licenses/by/4.0/'' = Some u \<Longrightarrow>
   list_of_length 1 (validate_type (TList (TModel (RightsElement (AnyUrl env)) None)) example_rights)"
  by (simp add: list_of_length_def validate_type.simps validate_model.simps example_rights_def
       RightsElement_def run_root_def run_validator_def extra_errors_def bounded_def at_most_def vocab_def
       constr_def one_of_def re_match_def)

lemma example_not_None:
  "example_title \<noteq> PNone" "example_creator \<noteq> PNone" "example_subject \<noteq> PNone"
  "example_description \<noteq> PNone" "example_publisher \<noteq> PNone" "example_contributor \<noteq> PNone"
  "example_date \<noteq> PNone" "example_type \<noteq> PNone" "example_format \<noteq> PNone"
  "example_identifier \<noteq> PNone" "example_language \<noteq> PNone" "example_coverage \<noteq> PNone"
  "example_rights \<noteq> PNone" "example_additional_metadata \<noteq> PNone" "example_metadata_record \<noteq> PNone"
  "example_dublin_core \<noteq> PNone"
  by (simp_all add: example_title_def example_creator_def example_subject_def example_description_def
      example_publisher_def example_contributor_def example_date_def example_type_def example_format_def
      example_identifier_def example_language_def example_coverage_def example_rights_def
      example_additional_metadata_def example_metadata_record_def example_dublin_core_def)

lemma example_document_valid:
  assumes "AnyUrl env ''https://creativecommons.org/licenses/by/4.0/'' = Some u"
    and "HttpUrl env ''https://data.umarine.edu'' = Some w"
  shows "\<exists>document. validate_document env example_document = Inr document \<and>
           count_elements (dublin_core document) =
             [(''title'', 2), (''creator'', 2), (''subject'', 4), (''description'', 1), (''publisher'', 1),
              (''contributor'', 2), (''date'', 3), (''type'', 1), (''format'', 2), (''identifier'', 2),
              (''source'', 0), (''language'', 1), (''relation'', 0), (''coverage'', 2), (''rights'', 1)] \<and>
           additional_metadata document \<noteq> None \<and> metadata_record document \<noteq> None"
proof -
  from example_kinds_closed(1) [THEN list_of_lengthD] obtain t where
    t: "validate_type (TList (TModel TitleElement None)) example_title = Inr (PList t)" "length t = 2" by auto
  from example_kinds_closed(2) [THEN list_of_lengthD] obtain cr where
    cr: "validate_type (TList (TModel CreatorElement None)) example_creator = Inr (PList cr)" "length cr = 2" by auto
  from example_kinds_closed(3) [THEN list_of_lengthD, of "AnyUrl env"] obtain su where
    su: "validate_type (TList (TModel (SubjectElement (AnyUrl env)) None)) example_subject = Inr (PList su)"
        "length su = 4" by auto
  from example_kinds_closed(4) [THEN list_of_lengthD] obtain de where
    de: "validate_type (TList (TModel DescriptionElement None)) example_description = Inr (PList de)"
        "length de = 1" by auto
  from example_publisher_valid [OF assms(2), THEN list_of_lengthD] obtain pu where
    pu: "validate_type (TList (TModel (PublisherElement (HttpUrl env)) None)) example_publisher = Inr (PList pu)"
        "length pu = 1" by auto
  from example_kinds_closed(5) [THEN list_of_lengthD] obtain co where
    co: "validate_type (TList (TModel ContributorElement None)) example_contributor = Inr (PList co)"
        "length co = 2" by auto
  from example_kinds_closed(6) [THEN list_of_lengthD] obtain da where
    da: "validate_type (TList (TModel DateElement None)) example_date = Inr (PList da)" "length da = 3" by auto
  from example_kinds_closed(7) [THEN list_of_lengthD, of "AnyUrl env"] obtain ty where
    ty: "validate_type (TList (TModel (TypeElement (AnyUrl env)) None)) example_type = Inr (PList ty)"
        "length ty = 1" by auto
  from example_kinds_closed(8) [THEN list_of_lengthD] obtain fo where
    fo: "validate_type (TList (TModel FormatElement None)) example_format = Inr (PList fo)" "length fo = 2" by auto
  from example_kinds_closed(9) [THEN list_of_lengthD] obtain ide where
    ide: "validate_type (TList (TModel IdentifierElement None)) example_identifier = Inr (PList ide)"
         "length ide = 2" by auto
  from example_kinds_closed(10) [THEN list_of_lengthD] obtain la where
    la: "validate_type (TList (TModel LanguageElement None)) example_language = Inr (PList la)"
        "length la = 1" by auto
  from example_kinds_closed(11) [THEN list_of_lengthD] obtain cv where
    cv: "validate_type (TList (TModel CoverageElement None)) example_coverage = Inr (PList cv)"
        "length cv = 2" by auto
  from example_rights_valid [OF assms(1), THEN list_of_lengthD] obtain ri where
    ri: "validate_type (TList (TModel (RightsElement (AnyUrl env)) None)) example_rights = Inr (PList ri)"
        "length ri = 1" by auto
  from example_kinds_closed(12) [THEN is_modelD] obtain am where
    am: "validate_type (TModel AdditionalMetadata None) example_additional_metadata = Inr (PDict am)" by auto
  from example_kinds_closed(13) [THEN is_modelD] obtain mr where
    mr: "validate_type (TModel MetadataRecord None) example_metadata_record = Inr (PDict mr)" by auto
  let ?dcvals = "[(''title'', PList t), (''creator'', PList cr), (''subject'', PList su),
     (''description'', PList de), (''publisher'', PList pu), (''contributor'', PList co),
     (''date'', PList da), (''type'', PList ty), (''format'', PList fo), (''identifier'', PList ide),
     (''source'', PNone), (''language'', PList la), (''relation'', PNone), (''coverage'', PList cv),
     (''rights'', PList ri)]"
  have ne: "t \<noteq> []" "ide \<noteq> []" using t(2) ide(2) by auto
  have dc: "validate_type (TModel (DublinCore_fields env) (Some validate_required_elements)) example_dublin_core =
              Inr (PDict ?dcvals)"
    using ne
    by (simp add: validate_type.simps(6) validate_model.simps example_dublin_core_def DublinCore_fields_def
        element_models_def validate_fields_step list_field_outcome example_not_None
        t(1) cr(1) su(1) de(1) pu(1) co(1) da(1) ty(1) fo(1) ide(1) la(1) cv(1) ri(1)
        extra_errors_def run_root_def validate_required_elements_def
        del: validate_fields.simps(2))
  have doc: "validate_model (DublinCoreDocument_fields env) None
               [(''dublin_core'', example_dublin_core),
                (''additional_metadata'', example_additional_metadata),
                (''metadata_record'', example_metadata_record)] =
             Inr [(''dublin_core'', PDict ?dcvals), (''additional_metadata'', PDict am),
                  (''metadata_record'', PDict mr)]"
    by (simp add: validate_model.simps DublinCoreDocument_fields_def validate_fields_step
        model_field_outcome optional_model_field_outcome example_not_None dc am mr
        extra_errors_def run_root_def del: validate_fields.simps(2))
  have "validate_document env example_document =
          Inr (DublinCoreDocument_of [(''dublin_core'', PDict ?dcvals), (''additional_metadata'', PDict am),
                  (''metadata_record'', PDict mr)])"
    by (simp add: validate_document_def example_document_def doc)
  moreover have "count_elements (dublin_core (DublinCoreDocument_of [(''dublin_core'', PDict ?dcvals),
       (''additional_metadata'', PDict am), (''metadata_record'', PDict mr)])) =
             [(''title'', 2), (''creator'', 2), (''subject'', 4), (''description'', 1), (''publisher'', 1),
              (''contributor'', 2), (''date'', 3), (''type'', 1), (''format'', 2), (''identifier'', 2),
              (''source'', 0), (''language'', 1), (''relation'', 0), (''coverage'', 2), (''rights'', 1)]"
    by (simp add: DublinCoreDocument_of_def DublinCore_of_def count_elements_def len_or_empty_def
        t(2) cr(2) su(2) de(2) pu(2) co(2) da(2) ty(2) fo(2) ide(2) la(2) cv(2) ri(2))
  ultimately show ?thesis by (simp add: DublinCoreDocument_of_def)
qed

section \<open>The claims\<close>






text \<open>
  C3, as stated, fails: the date validator checks digit groups only, so \<open>2024-13-40\<close>
  passes it, and the instance \<open>{value: "2024-13-40", scheme: "W3CDTF"}\<close> is accepted.
\<close>

theorem date_2024_13_40_w3cdtf_accepted:
  "validate_iso8601_date ''2024-13-40'' \<and>
   validate_model DateElement None [(''value'', PStr ''2024-13-40''), (''scheme'', PStr ''W3CDTF'')] =
     Inr [(''value'', PStr ''2024-13-40''), (''type'', PNone), (''scheme'', PStr ''W3CDTF''), (''note'', PNone)]"
  by code_simp

text \<open>
  C3, amended. \<open>validate_date_format\<close> raises exactly when the \<open>scheme\<close> among the
  fields validated before \<open>value\<close> is \<open>W3CDTF\<close> and the value fails the date validator;
  the date validator accepts \<open>2024-13-40\<close>; a Date instance with a non-empty value and
  another scheme of \<open>DateScheme\<close>, or no scheme, passes the element-level check without
  a format check, as \<open>{value: "2024-13-40", scheme: "local"}\<close> does.
\<close>

theorem date_format_rule:
  "(isl (validate_date_format v vs) \<longleftrightarrow>
      map_of vs ''scheme'' = Some (PStr ''W3CDTF'') \<and> \<not> validate_iso8601_date (str_value v)) \<and>
   validate_iso8601_date ''2024-13-40'' \<and>
   (s \<noteq> [] \<longrightarrow> scheme \<in> set DateScheme \<longrightarrow> scheme \<noteq> ''W3CDTF'' \<longrightarrow>
      validate_model DateElement None [(''value'', PStr s), (''scheme'', PStr scheme)] =
        Inr [(''value'', PStr s), (''type'', PNone), (''scheme'', PStr scheme), (''note'', PNone)]) \<and>
   (s \<noteq> [] \<longrightarrow>
      validate_model DateElement None [(''value'', PStr s)] =
        Inr [(''value'', PStr s), (''type'', PNone), (''scheme'', PNone), (''note'', PNone)])"
proof -
  have a: "isl (validate_date_format v vs) \<longleftrightarrow>
      map_of vs ''scheme'' = Some (PStr ''W3CDTF'') \<and> \<not> validate_iso8601_date (str_value v)"
    by (simp add: validate_date_format_def Let_def)
  have b: "validate_iso8601_date ''2024-13-40''" by code_simp
  have c: "validate_model DateElement None [(''value'', PStr s), (''scheme'', PStr scheme)] =
        Inr [(''value'', PStr s), (''type'', PNone), (''scheme'', PStr scheme), (''note'', PNone)]"
    if "s \<noteq> []" "scheme \<in> set DateScheme"
    using that
    by (simp add: validate_model.simps DateElement_def validate_type.simps constr_def run_validator_def
        validate_date_format_def run_root_def extra_errors_def Suc_le_eq)
  have d: "validate_model DateElement None [(''value'', PStr s)] =
        Inr [(''value'', PStr s), (''type'', PNone), (''scheme'', PNone), (''note'', PNone)]"
    if "s \<noteq> []"
    using that
    by (simp add: validate_model.simps DateElement_def validate_type.simps constr_def run_validator_def
        validate_date_format_def run_root_def extra_errors_def Suc_le_eq)
  from a b c d show ?thesis by blast
qed

theorem date_format_rule_witness:
  "validate_model DateElement None [(''value'', PStr ''2024-13-40''), (''scheme'', PStr ''local'')] =
     Inr [(''value'', PStr ''2024-13-40''), (''type'', PNone), (''scheme'', PStr ''local''), (''note'', PNone)] \<and>
   validate_model DateElement None [(''value'', PStr ''2024-13-40'')] =
     Inr [(''value'', PStr ''2024-13-40''), (''type'', PNone), (''scheme'', PNone), (''note'', PNone)] \<and>
   isl (validate_date_format (PStr ''January 2024'') [(''scheme'', PStr ''W3CDTF'')])"
proof -
  have 1: "''2024-13-40'' \<noteq> []" by simp
  have 2: "''local'' \<in> set DateScheme" by (simp add: DateScheme_def)
  have 3: "''local'' \<noteq> ''W3CDTF''" by simp
  have 4: "map_of [(''scheme'', PStr ''W3CDTF'')] ''scheme'' = Some (PStr ''W3CDTF'') \<and>
           \<not> validate_iso8601_date (str_value (PStr ''January 2024''))"
    by code_simp
  note r = date_format_rule [of "PStr ''January 2024''" "[(''scheme'', PStr ''W3CDTF'')]" "''2024-13-40''" "''local''"]
  from r [THEN conjunct2, THEN conjunct2, THEN conjunct1, rule_format, OF 1 2 3]
    r [THEN conjunct2, THEN conjunct2, THEN conjunct2, rule_format, OF 1]
    r [THEN conjunct1, THEN iffD2, OF 4]
  show ?thesis by (intro conjI)
qed

text \<open>
  C4 at the failing input: \<open>not-a-doi\<close> is no DOI and \<open>validate_identifier_format\<close>
  rejects it when it is given the type \<open>DOI\<close>, but the document whose identifier is
  \<open>{value: "not-a-doi", type: "DOI"}\<close> passes: \<open>value\<close> is declared, and so validated,
  before \<open>type\<close>, and the validator never sees the type.
\<close>

theorem bad_doi_document_passes:
  "\<not> validate_doi ''not-a-doi'' \<and>
   validate_identifier_format (PStr ''not-a-doi'') [(''type'', PStr ''DOI'')] = Inl ''Invalid DOI format'' \<and>
   map_of (validate_dublin_core_yaml (single_file_env ''doc.yaml'' (Loaded bad_doi_document) 120) ''doc.yaml'')
     ''validation_status'' = Some (RStr ''PASSED'')"
  by code_simp

text \<open>
  C5, as stated, fails: the example document of the \<open>example\<close> command has no \<open>source\<close>
  and no \<open>relation\<close> element, so its report shows 13 populated kinds, not 15, and a
  completeness below 100.
\<close>

theorem example_document_populated_13:
  "map_of (validate_dublin_core_yaml (single_file_env ''example.yaml'' (Loaded example_document) 3289) ''example.yaml'')
     ''populated_elements'' = Some (RInt 13) \<and>
   map_of (validate_dublin_core_yaml (single_file_env ''example.yaml'' (Loaded example_document) 3289) ''example.yaml'')
     ''populated_elements'' \<noteq> Some (RInt 15) \<and>
   map_of (validate_dublin_core_yaml (single_file_env ''example.yaml'' (Loaded example_document) 3289) ''example.yaml'')
     ''completeness_percentage'' \<noteq> Some (RFloat 100)"
  by code_simp

text \<open>
  C5, amended. Wherever the library accepts the two URLs of the example document, the
  document validates: the report has status \<open>PASSED\<close>, the counts below,
  \<open>populated_elements\<close> 13, \<open>completeness_percentage\<close> the float \<open>(13 / 15) * 100\<close>,
  which is 86.66666666666667, and both presence flags true.
\<close>

theorem example_document_report:
  assumes "AnyUrl env ''https://creativecommons.org/licenses/by/4.0/'' = Some u"
    and "HttpUrl env ''https://data.umarine.edu'' = Some w"
    and "safe_load_file env p = Loaded example_document"
    and "st_size env p = Inr n"
  shows "map_of (validate_dublin_core_yaml env p) ''validation_status'' = Some (RStr ''PASSED'') \<and>
         map_of (validate_dublin_core_yaml env p) ''element_counts'' =
           Some (RDict
             [(''title'', 2), (''creator'', 2), (''subject'', 4), (''description'', 1), (''publisher'', 1),
              (''contributor'', 2), (''date'', 3), (''type'', 1), (''format'', 2), (''identifier'', 2),
              (''source'', 0), (''language'', 1), (''relation'', 0), (''coverage'', 2), (''rights'', 1)]) \<and>
         map_of (validate_dublin_core_yaml env p) ''populated_elements'' = Some (RInt 13) \<and>
         map_of (validate_dublin_core_yaml env p) ''completeness_percentage'' =
           Some (RFloat (py_mul (py_truediv 13 15) 100)) \<and>
         py_mul (py_truediv 13 15) 100 = 6098624495397547 / 70368744177664 \<and>
         map_of (validate_dublin_core_yaml env p) ''has_additional_metadata'' = Some (RBool True) \<and>
         map_of (validate_dublin_core_yaml env p) ''has_metadata_record'' = Some (RBool True)"
proof -
  from example_document_valid [OF assms(1,2)] obtain document where
    v: "validate_document env example_document = Inr document" and
    c: "count_elements (dublin_core document) =
             [(''title'', 2), (''creator'', 2), (''subject'', 4), (''description'', 1), (''publisher'', 1),
              (''contributor'', 2), (''date'', 3), (''type'', 1), (''format'', 2), (''identifier'', 2),
              (''source'', 0), (''language'', 1), (''relation'', 0), (''coverage'', 2), (''rights'', 1)]" and
    m: "additional_metadata document \<noteq> None" "metadata_record document \<noteq> None"
    by auto
  have r: "validate_dublin_core_yaml env p =
             create_validation_report document @
               [(''file_path'', RStr (str_Path env p)), (''file_size_bytes'', RInt (int n))]"
    using assms(3,4) v
    by (simp add: validate_dublin_core_yaml_def validation_decorator_def validate_dublin_core_yaml_body_def
        load_yaml_file_def)
  have "int (populated_kinds (dublin_core document)) = 13"
    unfolding populated_elements_eq [symmetric] c by simp
  moreover have "py_mul (py_truediv 13 15) 100 = 6098624495397547 / 70368744177664" by code_simp
  ultimately show ?thesis
    unfolding r report_fields create_validation_report_status using c m by simp
qed

theorem example_document_report_witness:
  "map_of (validate_dublin_core_yaml (single_file_env ''example.yaml'' (Loaded example_document) 3289) ''example.yaml'')
     ''validation_status'' = Some (RStr ''PASSED'') \<and>
   map_of (validate_dublin_core_yaml (single_file_env ''example.yaml'' (Loaded example_document) 3289) ''example.yaml'')
     ''has_additional_metadata'' = Some (RBool True) \<and>
   map_of (validate_dublin_core_yaml (single_file_env ''example.yaml'' (Loaded example_document) 3289) ''example.yaml'')
     ''has_metadata_record'' = Some (RBool True) \<and>
   map_of (validate_dublin_core_yaml (single_file_env ''example.yaml'' (Loaded example_document) 3289) ''example.yaml'')
     ''completeness_percentage'' = Some (RFloat (6098624495397547 / 70368744177664))"
proof -
  let ?env = "single_file_env ''example.yaml'' (Loaded example_document) 3289"
  have 1: "AnyUrl ?env ''https://creativecommons.org/licenses/by/4.0/'' =
             Some ''https://creativecommons.org/licenses/by/4.0/''"
    by (simp add: single_file_env_def http_prefixed_def)
  have 2: "HttpUrl ?env ''https://data.umarine.edu'' = Some ''https://data.umarine.edu''"
    by (simp add: single_file_env_def http_prefixed_def)
  have 3: "safe_load_file ?env ''example.yaml'' = Loaded example_document"
    by (simp add: single_file_env_def)
  have 4: "st_size ?env ''example.yaml'' = Inr 3289"
    by (simp add: single_file_env_def)
  from example_document_report [OF 1 2 3 4] show ?thesis by simp
qed

text \<open>
  C6. For each of the 15 element kinds: when an instance of the kind in the parsed document
  has a key that is no field of the kind's model, validation of the document fails and the
  run returns the failure report of the \<open>ValueError\<close> that \<open>validate_document\<close> raises.
\<close>

theorem closed_schema_rejection:
  assumes "(kind, model) \<in> set (element_models env)"
    and "safe_load_file env p = Loaded (PDict kwargs)"
    and "map_of kwargs ''dublin_core'' = Some (PDict dc)"
    and "map_of dc kind = Some (PList instances)"
    and "PDict inst \<in> set instances"
    and "name \<in> fst ` set inst"
    and "name \<notin> set (map fld_name model)"
  shows "\<exists>es. validate_dublin_core_yaml env p =
           [(''validation_status'', RStr ''FAILED''),
            (''error'', RStr (''Validation failed: '' @ str_ValidationError env es)),
            (''error_type'', RStr ''ValueError'')]"
proof -
  have "isl (validate_model (DublinCore_fields env) (Some validate_required_elements) dc)"
    using assms(1,4,5,6,7) by (rule dublin_core_extra_field)
  with assms(3) have "isl (validate_model (DublinCoreDocument_fields env) None kwargs)"
    by (rule document_dublin_core_fails)
  then obtain es where "validate_model (DublinCoreDocument_fields env) None kwargs = Inl es"
    by (cases "validate_model (DublinCoreDocument_fields env) None kwargs") auto
  from failing_validation [OF assms(2) this] show ?thesis by (auto simp: failure_report_def)
qed

theorem closed_schema_rejection_witness:
  "\<exists>es. validate_dublin_core_yaml (single_file_env ''doc.yaml'' (Loaded extra_field_document) 120) ''doc.yaml'' =
     [(''validation_status'', RStr ''FAILED''),
      (''error'', RStr (''Validation failed: '' @
         str_ValidationError (single_file_env ''doc.yaml'' (Loaded extra_field_document) 120) es)),
      (''error_type'', RStr ''ValueError'')]"
proof -
  let ?title = "PDict [(''value'', PStr ''Test Document''), (''subtitle'', PStr ''A Draft'')]"
  let ?dc = "[(''title'', PList [?title]),
              (''identifier'', PList [PDict [(''value'', PStr ''UMDS-2024-001''), (''type'', PStr ''local'')]])]"
  have 1: "(''title'', TitleElement) \<in>
             set (element_models (single_file_env ''doc.yaml'' (Loaded extra_field_document) 120))"
    by (rule title_model)
  have 2: "safe_load_file (single_file_env ''doc.yaml'' (Loaded extra_field_document) 120) ''doc.yaml'' =
             Loaded (PDict [(''dublin_core'', PDict ?dc)])"
    by (simp add: single_file_env_def extra_field_document_def)
  have 3: "map_of [(''dublin_core'', PDict ?dc)] ''dublin_core'' = Some (PDict ?dc)" by simp
  have 4: "map_of ?dc ''title'' = Some (PList [?title])" by simp
  have 5: "?title \<in> set [?title]" by simp
  have 6: "''subtitle'' \<in> fst ` set [(''value'', PStr ''Test Document''), (''subtitle'', PStr ''A Draft'')]"
    by simp
  have 7: "''subtitle'' \<notin> set (map fld_name TitleElement)" by (simp add: TitleElement_def)
  show ?thesis by (rule closed_schema_rejection [OF 1 2 3 4 5 6 7])
qed



text \<open>
  C8. The \<open>element_counts\<close> of every report that \<open>create_validation_report\<close> builds (with
  or without the two file entries the pipeline appends) has the 15 kind names as its keys,
  each mapped to the number of instances of the kind, a non-negative integer that is 0 for
  an absent kind. When no kind has an instance, all 15 counts are 0, \<open>populated_elements\<close>
  is 0 and \<open>completeness_percentage\<close> is 0.0.
\<close>

theorem element_counts_has_all_kinds:
  "\<exists>counts.
     map_of (create_validation_report document @ extra) ''element_counts'' = Some (RDict counts) \<and>
     map fst counts = element_kinds \<and> length element_kinds = 15 \<and> distinct element_kinds \<and>
     (\<forall>kind \<in> set element_kinds. \<exists>c. map_of counts kind = Some c \<and> 0 \<le> c \<and>
        c = int (length (kind_instances (dublin_core document) kind)) \<and>
        (kind_instances (dublin_core document) kind = [] \<longrightarrow> c = 0)) \<and>
     ((\<forall>kind \<in> set element_kinds. kind_instances (dublin_core document) kind = []) \<longrightarrow>
        counts = map (\<lambda>kind. (kind, 0)) element_kinds \<and>
        map_of (create_validation_report document @ extra) ''populated_elements'' = Some (RInt 0) \<and>
        map_of (create_validation_report document @ extra) ''completeness_percentage'' = Some (RFloat 0))"
proof -
  let ?dc = "dublin_core document"
  have z: "py_mul (py_truediv 0 15) 100 = 0" by code_simp
  have a: "\<forall>kind \<in> set element_kinds. \<exists>c. map_of (count_elements ?dc) kind = Some c \<and> 0 \<le> c \<and>
        c = int (length (kind_instances ?dc kind)) \<and> (kind_instances ?dc kind = [] \<longrightarrow> c = 0)"
    by (simp add: kind_instances_length)
  have b: "length element_kinds = 15" "distinct element_kinds" by (simp_all add: element_kinds_def)
  have c: "count_elements ?dc = map (\<lambda>kind. (kind, 0)) element_kinds \<and> populated_kinds ?dc = 0"
    if "\<forall>kind \<in> set element_kinds. kind_instances ?dc kind = []"
    using that by (simp add: count_elements_as_map populated_kinds_def)
  show ?thesis
    unfolding report_fields using a b c count_elements_keys [of ?dc] z by auto
qed

theorem element_counts_has_all_kinds_witness:
  "map_of (create_validation_report empty_document) ''element_counts'' =
     Some (RDict (map (\<lambda>kind. (kind, 0)) element_kinds)) \<and>
   map_of (create_validation_report empty_document) ''populated_elements'' = Some (RInt 0) \<and>
   map_of (create_validation_report empty_document) ''completeness_percentage'' = Some (RFloat 0)"
proof -
  have "\<forall>kind \<in> set element_kinds. kind_instances (dublin_core empty_document) kind = []"
    by (simp add: element_kinds_def kind_instances_def element_lists_def empty_document_def)
  with element_counts_has_all_kinds [of empty_document "[]"] show ?thesis by auto
qed

text \<open>
  C9 at the failing input: the two examples of the claim hold, but the validator also
  accepts an ORCID followed by a newline, because \<open>$\<close> matches before a final newline.
\<close>

theorem validate_orcid_trailing_newline:
  "validate_orcid ''0000-0002-1825-0097'' \<and> \<not> validate_orcid ''0000-0004-1825-0097'' \<and>
   validate_orcid (''0000-0002-1825-0097'' @ [newline])"
  by code_simp



end
